theory Spec2Isabelle
  imports Main "HOL-Library.Word"
begin

section \<open>JavaScript values, errors and asynchronous results\<close>

text \<open>
  The two \<open>SportX\<close> classes (\<open>src/src/sportx.ts\<close>, the legacy client, and
  \<open>src/unnamed/part_000\<close>, the modern client) are written in TypeScript. Values that
  cross the program's boundary (request objects, relayer answers, arguments the code
  inspects with \<open>isArray\<close>, \<open>isBoolean\<close> or \<open>typeof\<close>) are modelled as untyped
  JavaScript values. Numbers are the integers (fractions, \<open>NaN\<close> and infinities are
  outside the model); \<open>JBig\<close> is an ethers \<open>BigNumber\<close> object and \<open>JBytes\<close> a
  \<open>Uint8Array\<close>. An object is the list of its own properties in insertion order.
\<close>

datatype jsval =
    JUndefined
  | JNull
  | JBool bool
  | JNum int
  | JStr string
  | JBig int
  | JBytes "8 word list"
  | JArr "jsval list"
  | JObj "(string \<times> jsval) list"

text \<open>
  The error classes of the source: \<open>APISchemaError\<close>, \<open>APIError\<close> (the modern client
  passes a body and a message, the legacy client a message only, modelled with body
  \<open>JUndefined\<close>), \<open>APITimeoutError\<close>, the plain \<open>Error\<close>, the \<open>TypeError\<close> of the
  language, the bare \<open>reject()\<close> of the modern \<open>init\<close>, which rejects with
  \<open>undefined\<close>, and whatever a collaborator outside the repository throws.
\<close>

datatype error =
    APISchemaError string
  | APIError jsval string
  | APITimeoutError string
  | Error string
  | TypeError string
  | RejectedUndefined
  | ExternalError string

text \<open>
  An awaited promise resolves, rejects, or never settles. \<open>Pending\<close> makes "the caller
  waits forever" a value of the model.
\<close>

datatype 'a outcome = Resolved 'a | Rejected error | Pending

text \<open>
  Everything the program does to the outside world, in the order it does it.
  Diagnostic output through \<open>this.debug\<close> is not recorded: it never influences a
  result.
\<close>

datatype effect =
    RandomBytes nat
  | Fetch string "string option" "jsval option"
  | SocketOpen string
  | SocketOn string
  | SocketEmit string jsval
  | AblyOpen string
  | AblyOn string
  | GetAddress
  | GetNetwork
  | OrderSignature jsval
  | SignMessage jsval
  | SignTypedDataLocal jsval jsval
  | ProviderSend string "jsval list"
  | ContractNonces string jsval

record 'c state =
  self :: 'c
  trace :: "effect list"

type_synonym ('c, 'a) async = "'c state \<Rightarrow> 'a outcome \<times> 'c state"

definition resolve :: "'a \<Rightarrow> ('c, 'a) async" where
  "resolve a s = (Resolved a, s)"

definition throw :: "error \<Rightarrow> ('c, 'a) async" where
  "throw e s = (Rejected e, s)"

text \<open>\<open>then_do m f\<close> is \<open>const a = await m; f a\<close>: a rejection or a promise that
  never settles ends the function there.\<close>

definition then_do :: "('c, 'a) async \<Rightarrow> ('a \<Rightarrow> ('c, 'b) async) \<Rightarrow> ('c, 'b) async" where
  "then_do m f s =
     (case m s of
        (Resolved a, s') \<Rightarrow> f a s'
      | (Rejected e, s') \<Rightarrow> (Rejected e, s')
      | (Pending, s') \<Rightarrow> (Pending, s'))"

text \<open>A synchronous call that may throw.\<close>

definition attempt :: "error + 'a \<Rightarrow> ('c, 'a) async" where
  "attempt r = (case r of Inl e \<Rightarrow> throw e | Inr a \<Rightarrow> resolve a)"

definition perform :: "effect \<Rightarrow> ('c, unit) async" where
  "perform e s = (Resolved (), s\<lparr>trace := trace s @ [e]\<rparr>)"

definition await :: "effect \<Rightarrow> (effect list \<Rightarrow> 'a outcome) \<Rightarrow> ('c, 'a) async" where
  "await e reply s = (reply (trace s), s\<lparr>trace := trace s @ [e]\<rparr>)"

definition modify :: "('c \<Rightarrow> 'c) \<Rightarrow> ('c, unit) async" where
  "modify f s = (Resolved (), s\<lparr>self := f (self s)\<rparr>)"

definition get_self :: "('c, 'c) async" where
  "get_self s = (Resolved (self s), s)"

subsection \<open>The language's own operations\<close>

fun truthy :: "jsval \<Rightarrow> bool" where
  "truthy JUndefined = False"
| "truthy JNull = False"
| "truthy (JBool b) = b"
| "truthy (JNum n) = (n \<noteq> 0)"
| "truthy (JStr s) = (s \<noteq> [])"
| "truthy _ = True"

fun typeof :: "jsval \<Rightarrow> string" where
  "typeof JUndefined = ''undefined''"
| "typeof (JBool b) = ''boolean''"
| "typeof (JNum n) = ''number''"
| "typeof (JStr s) = ''string''"
| "typeof _ = ''object''"

text \<open>\<open>isArray\<close> and \<open>isBoolean\<close> of Node's \<open>util\<close>.\<close>

fun isArray :: "jsval \<Rightarrow> bool" where
  "isArray (JArr xs) = True"
| "isArray _ = False"

fun isBoolean :: "jsval \<Rightarrow> bool" where
  "isBoolean (JBool b) = True"
| "isBoolean _ = False"

fun elements :: "jsval \<Rightarrow> jsval list" where
  "elements (JArr xs) = xs"
| "elements _ = []"

text \<open>\<open>a || b\<close>.\<close>

definition or_else :: "jsval \<Rightarrow> jsval \<Rightarrow> jsval" where
  "or_else a b = (if truthy a then a else b)"

text \<open>Reading a data property \<open>v.k\<close>: a \<open>TypeError\<close> on \<open>undefined\<close> and \<open>null\<close>,
  \<open>undefined\<close> where the property is absent.\<close>

fun get_prop :: "jsval \<Rightarrow> string \<Rightarrow> error + jsval" where
  "get_prop JUndefined k = Inl (TypeError (''Cannot read property '' @ k @ '' of undefined''))"
| "get_prop JNull k = Inl (TypeError (''Cannot read property '' @ k @ '' of null''))"
| "get_prop (JObj fs) k = Inr (case map_of fs k of None \<Rightarrow> JUndefined | Some v \<Rightarrow> v)"
| "get_prop _ k = Inr JUndefined"

text \<open>Writing a property keeps the position of a key that is already there and appends
  a new one; \<open>{...a, ...b}\<close> writes the properties of \<open>b\<close> over those of \<open>a\<close> from
  left to right.\<close>

fun put :: "'k \<Rightarrow> 'v \<Rightarrow> ('k \<times> 'v) list \<Rightarrow> ('k \<times> 'v) list" where
  "put k v [] = [(k, v)]"
| "put k v (p # ps) = (if fst p = k then (k, v) # ps else p # put k v ps)"

definition spread :: "(string \<times> jsval) list \<Rightarrow> (string \<times> jsval) list \<Rightarrow> (string \<times> jsval) list" where
  "spread a b = foldl (\<lambda>acc (k, v). put k v acc) a b"

text \<open>The own enumerable properties that \<open>{...v}\<close> copies.\<close>

fun own_props :: "jsval \<Rightarrow> (string \<times> jsval) list" where
  "own_props (JObj fs) = fs"
| "own_props _ = []"

fun digit_char :: "nat \<Rightarrow> char" where
  "digit_char n = char_of (48 + n)"

declare digit_char.simps [simp del]

fun dec_nat :: "nat \<Rightarrow> string" where
  "dec_nat n = (if n < 10 then [digit_char n] else dec_nat (n div 10) @ [digit_char (n mod 10)])"

declare dec_nat.simps [simp del]

definition dec_int :: "int \<Rightarrow> string" where
  "dec_int i = (if i < 0 then CHR ''-'' # dec_nat (nat (- i)) else dec_nat (nat i))"

fun join_with :: "string \<Rightarrow> string list \<Rightarrow> string" where
  "join_with sep [] = []"
| "join_with sep [x] = x"
| "join_with sep (x # y # ys) = x @ sep @ join_with sep (y # ys)"

text \<open>\<open>String(v)\<close>, which a template literal applies to each hole.\<close>

fun String_js :: "jsval \<Rightarrow> string" where
  "String_js JUndefined = ''undefined''"
| "String_js JNull = ''null''"
| "String_js (JBool b) = (if b then ''true'' else ''false'')"
| "String_js (JNum n) = dec_int n"
| "String_js (JStr s) = s"
| "String_js (JBig n) = dec_int n"
| "String_js (JBytes bs) = join_with '','' (map (\<lambda>b. dec_nat (unat b)) bs)"
| "String_js (JArr xs) =
     join_with '','' (map (\<lambda>x. if x = JUndefined \<or> x = JNull then [] else String_js x) xs)"
| "String_js (JObj fs) = ''[object Object]''"

text \<open>The method call \<open>v.toString()\<close>.\<close>

definition toString :: "jsval \<Rightarrow> error + jsval" where
  "toString v =
     (if v = JUndefined \<or> v = JNull
      then Inl (TypeError (''Cannot read property toString of '' @ String_js v))
      else Inr (JStr (String_js v)))"

text \<open>\<open>xs.map(f)\<close> where \<open>f\<close> may throw: the first exception ends the loop.\<close>

fun map_try :: "('a \<Rightarrow> error + 'b) \<Rightarrow> 'a list \<Rightarrow> error + 'b list" where
  "map_try f [] = Inr []"
| "map_try f (x # xs) =
     (case f x of
        Inl e \<Rightarrow> Inl e
      | Inr y \<Rightarrow> (case map_try f xs of Inl e \<Rightarrow> Inl e | Inr ys \<Rightarrow> Inr (y # ys)))"


text \<open>The first property read of a value can throw; once it has succeeded the value is
  neither \<open>undefined\<close> nor \<open>null\<close>, and the later reads of the same value are
  written with \<open>field\<close>.\<close>

definition field :: "jsval \<Rightarrow> string \<Rightarrow> jsval" where
  "field v k = (case get_prop v k of Inl e \<Rightarrow> JUndefined | Inr x \<Rightarrow> x)"

text \<open>\<open>v.map(f)\<close>, \<open>v.every(f)\<close> and \<open>v.forEach(f)\<close> exist on arrays only.\<close>

fun array_of :: "jsval \<Rightarrow> string \<Rightarrow> error + jsval list" where
  "array_of (JArr xs) m = Inr xs"
| "array_of JUndefined m = Inl (TypeError (''Cannot read property '' @ m @ '' of undefined''))"
| "array_of JNull m = Inl (TypeError (''Cannot read property '' @ m @ '' of null''))"
| "array_of v m = Inl (TypeError (m @ '' is not a function''))"

section \<open>Promises, events and timers\<close>

text \<open>
  The source builds its promises by hand: an executor that registers callbacks on an
  event emitter and arms timers with \<open>setTimeout\<close>. The environment delivers events,
  each a number of milliseconds after the one before it: \<open>Emitted k d\<close> is the emitter
  firing the listeners of \<open>k\<close> with \<open>d\<close>, \<open>Acked k r\<close> is the acknowledgement
  callback of an \<open>emit\<close> of \<open>k\<close> called with \<open>r\<close>. A callback resolves, rejects or
  arms a timer; every timer callback of the source is a \<open>reject\<close>, so a timer is its
  deadline and the error it rejects with. The first settlement wins.
\<close>

datatype event = Emitted string jsval | Acked string jsval

datatype 'a action = Resolve 'a | Reject error | SetTimeout nat error

record 'a promise =
  settled :: "'a outcome"
  clock :: nat
  timers :: "(nat \<times> error) list"

fun act :: "'a promise \<Rightarrow> 'a action \<Rightarrow> 'a promise" where
  "act p (Resolve v) = (if settled p = Pending then p\<lparr>settled := Resolved v\<rparr> else p)"
| "act p (Reject e) = (if settled p = Pending then p\<lparr>settled := Rejected e\<rparr> else p)"
| "act p (SetTimeout d e) = p\<lparr>timers := timers p @ [(clock p + d, e)]\<rparr>"

text \<open>The armed timer that fires first: the least deadline, the one armed earlier among
  equals.\<close>

fun earliest :: "(nat \<times> error) list \<Rightarrow> (nat \<times> error) option" where
  "earliest [] = None"
| "earliest (t # ts) =
     (case earliest ts of
        None \<Rightarrow> Some t
      | Some u \<Rightarrow> if fst t \<le> fst u then Some t else Some u)"

text \<open>Time moves to \<open>t\<close>: the timers due by then fire, the earliest first.\<close>

definition elapse :: "nat \<Rightarrow> 'a promise \<Rightarrow> 'a promise" where
  "elapse t p =
     (let due = filter (\<lambda>x. fst x \<le> t) (timers p);
          p' = p\<lparr>clock := t, timers := filter (\<lambda>x. \<not> fst x \<le> t) (timers p)\<rparr>
      in case earliest due of None \<Rightarrow> p' | Some x \<Rightarrow> act p' (Reject (snd x)))"

definition deliver :: "(event \<Rightarrow> 'a action list) \<Rightarrow> 'a promise \<Rightarrow> nat \<times> event \<Rightarrow> 'a promise" where
  "deliver handler p de = foldl act (elapse (clock p + fst de) p) (handler (snd de))"

text \<open>When no further event comes, the timers still armed fire in their turn.\<close>

definition run_out :: "'a promise \<Rightarrow> 'a outcome" where
  "run_out p =
     (case earliest (timers p) of
        None \<Rightarrow> settled p
      | Some x \<Rightarrow> settled (act p (Reject (snd x))))"

text \<open>\<open>new Promise(executor)\<close> awaited while the environment delivers \<open>evs\<close>: the
  executor's own actions, then the callbacks.\<close>

definition new_Promise ::
  "'a action list \<Rightarrow> (event \<Rightarrow> 'a action list) \<Rightarrow> (nat \<times> event) list \<Rightarrow> 'a outcome" where
  "new_Promise executor handler evs =
     run_out (foldl (deliver handler)
       (foldl act \<lparr>settled = Pending, clock = 0, timers = []\<rparr> executor) evs)"


section \<open>Collaborators\<close>

text \<open>
  The classes lean on code that is not part of the two source files: the repository's
  own \<open>./constants\<close>, \<open>./utils/validation\<close>, \<open>./utils/convert\<close>, \<open>./utils/misc\<close>,
  \<open>./utils/networks\<close> and \<open>./utils/signing\<close>, and the libraries \<open>ethers\<close> and
  \<open>eth-sig-util\<close>. Their pure functions and constants are the fields of one
  parameter, \<open>K\<close>, named as the source names them; every theorem below holds for
  every \<open>K\<close>. A validation helper returns the string \<open>"OK"\<close> or the violation.
\<close>

record wallet =
  wallet_privateKey :: jsval
  wallet_address :: string

record response =
  status :: nat
  statusText :: string
  body_text :: string

record collab =
  RELAYER_TIMEOUT :: nat
  RELAYER_HTTP_ENDPOINTS :: "string \<Rightarrow> string"
  WEBSOCKET_MESSAGE_KEYS :: "string \<Rightarrow> string"
  PRODUCTION_RELAYER_URL :: string
  RINKEBY_RELAYER_URL :: string
  RELAYER_URLS :: "jsval \<Rightarrow> string"
  Environments :: "jsval list"
  Environments_PRODUCTION :: jsval
  Environments_RINKEBY :: jsval
  EIP712_FILL_HASHER_ADDRESSES :: "jsval \<Rightarrow> jsval"
  TOKEN_TRANSFER_PROXY_ADDRESS :: "jsval \<Rightarrow> jsval"
  TOKEN_ADDRESSES :: "string \<Rightarrow> (string \<times> string) list"
  Tokens_DAI :: string
  getMainchainNetwork :: "jsval \<Rightarrow> string"
  getSidechainNetwork :: "jsval \<Rightarrow> string"
  validateINewOrderSchema :: "jsval \<Rightarrow> string"
  validateOrderHashArray :: "jsval \<Rightarrow> string"
  validateISignedRelayerMakerOrder :: "jsval \<Rightarrow> string"
  validateIFillDetailsMetadata :: "jsval \<Rightarrow> string"
  validateIGetPendingBetsRequest :: "jsval \<Rightarrow> string"
  validateIGetTradesRequest :: "jsval \<Rightarrow> string"
  isAddress :: "jsval \<Rightarrow> bool"
  isPositiveBigNumber :: "jsval \<Rightarrow> bool"
  convertToContractOrder :: "jsval \<Rightarrow> jsval"
  convertToDecimalOdds :: "int \<Rightarrow> jsval"
  convertToDisplayAmount :: "int \<Rightarrow> jsval"
  tryParseJson :: "string \<Rightarrow> jsval \<times> bool"
  getOrderHash :: "jsval \<Rightarrow> jsval"
  getCancelOrderEIP712Payload :: "jsval \<Rightarrow> jsval \<Rightarrow> jsval"
  getFillOrderEIP712Payload :: "jsval \<Rightarrow> jsval \<Rightarrow> jsval \<Rightarrow> jsval"
  getDaiPermitEIP712Payload :: "jsval \<Rightarrow> jsval \<Rightarrow> jsval \<Rightarrow> jsval"
  isHexString :: "jsval \<Rightarrow> bool"
  ethers_bigNumberify :: "jsval \<Rightarrow> error + int"
  formatUnits :: "int \<Rightarrow> nat \<Rightarrow> string"
  solidityKeccak256 :: "string list \<Rightarrow> jsval list \<Rightarrow> error + jsval"
  arrayify :: "jsval \<Rightarrow> jsval"
  new_Wallet :: "jsval \<Rightarrow> error + wallet"
  signTypedData_v4 :: "jsval \<Rightarrow> jsval \<Rightarrow> error + jsval"
  JSON_parse :: "string \<Rightarrow> error + jsval"
  Number_js :: "jsval \<Rightarrow> jsval"
  toNumber :: "jsval \<Rightarrow> error + jsval"

text \<open>
  \<open>bigNumberify\<close> of ethers reads a byte array as the big-endian number it spells and
  passes a \<open>BigNumber\<close> through; what it makes of a string or a number, and when it
  throws, is left to the parameter. \<open>BigNumber.toString()\<close> is the decimal numeral.
\<close>

definition be_nat :: "8 word list \<Rightarrow> nat" where
  "be_nat bs = foldl (\<lambda>acc b. acc * 256 + unat b) 0 bs"

definition bigNumberify :: "collab \<Rightarrow> jsval \<Rightarrow> error + int" where
  "bigNumberify K v =
     (case v of
        JBytes bs \<Rightarrow> Inr (int (be_nat bs))
      | JBig n \<Rightarrow> Inr n
      | _ \<Rightarrow> ethers_bigNumberify K v)"

section \<open>The world\<close>

text \<open>
  What the environment answers: the random source, the relayer over HTTP, the events
  of the socket and of the realtime connection, the wallet and the chain. Each answer
  may depend on everything the program has done so far, so each oracle reads the
  trace. A call that is awaited can resolve, reject or never settle.
\<close>

record world =
  w_randomBytes :: "effect list \<Rightarrow> nat \<Rightarrow> 8 word list"
  w_fetch :: "effect list \<Rightarrow> string \<Rightarrow> string option \<Rightarrow> jsval option \<Rightarrow> response outcome"
  w_events :: "effect list \<Rightarrow> (nat \<times> event) list"
  w_getAddress :: "effect list \<Rightarrow> jsval outcome"
  w_getNetwork :: "effect list \<Rightarrow> jsval outcome"
  w_getOrderSignature :: "effect list \<Rightarrow> jsval \<Rightarrow> jsval outcome"
  w_signMessage :: "effect list \<Rightarrow> jsval \<Rightarrow> jsval outcome"
  w_send :: "effect list \<Rightarrow> string \<Rightarrow> jsval list \<Rightarrow> jsval outcome"
  w_nonces :: "effect list \<Rightarrow> string \<Rightarrow> jsval \<Rightarrow> jsval outcome"

definition randomBytes :: "world \<Rightarrow> nat \<Rightarrow> ('c, jsval) async" where
  "randomBytes W n = await (RandomBytes n) (\<lambda>t. Resolved (JBytes (w_randomBytes W t n)))"

definition fetch :: "world \<Rightarrow> string \<Rightarrow> string option \<Rightarrow> jsval option \<Rightarrow> ('c, response) async" where
  "fetch W url method body = await (Fetch url method body) (\<lambda>t. w_fetch W t url method body)"

definition await_Promise ::
  "world \<Rightarrow> 'a action list \<Rightarrow> (event \<Rightarrow> 'a action list) \<Rightarrow> ('c, 'a) async" where
  "await_Promise W executor handler s =
     (new_Promise executor handler (w_events W (trace s)), s)"

text \<open>\<open>getOrderSignature(order, wallet)\<close> of \<open>./utils/signing\<close> asks the wallet to
  sign the order.\<close>

definition getOrderSignature :: "world \<Rightarrow> jsval \<Rightarrow> ('c, jsval) async" where
  "getOrderSignature W order = await (OrderSignature order) (\<lambda>t. w_getOrderSignature W t order)"


section \<open>The legacy client (\<open>src/src/sportx.ts\<close>)\<close>

record legacy =
  l_signingWallet :: wallet
  l_relayerUrl :: string
  l_initialized :: bool
  l_clientSocket :: "string option"
  l_metadata :: jsval

text \<open>The constructor. The fields declared with \<open>!\<close> start out \<open>undefined\<close>.\<close>

definition legacy_SportX :: "collab \<Rightarrow> jsval \<Rightarrow> jsval \<Rightarrow> error + legacy" where
  "legacy_SportX K env privateKey =
     (case new_Wallet K privateKey of
        Inl e \<Rightarrow> Inl e
      | Inr w \<Rightarrow>
          if env = Environments_PRODUCTION K then
            Inr \<lparr>l_signingWallet = w, l_relayerUrl = PRODUCTION_RELAYER_URL K,
                 l_initialized = False, l_clientSocket = None, l_metadata = JUndefined\<rparr>
          else if env = Environments_RINKEBY K then
            Inr \<lparr>l_signingWallet = w, l_relayerUrl = RINKEBY_RELAYER_URL K,
                 l_initialized = False, l_clientSocket = None, l_metadata = JUndefined\<rparr>
          else Inl (Error (''Invalid environment: '' @ String_js env)))"

text \<open>\<open>this.clientSocket.on\<close> and \<open>.emit\<close> throw while the socket is undefined.\<close>

definition legacy_clientSocket :: "(legacy, unit) async" where
  "legacy_clientSocket =
     then_do get_self (\<lambda>c.
       case l_clientSocket c of
         None \<Rightarrow> throw (TypeError ''Cannot read property of undefined'')
       | Some u \<Rightarrow> resolve ())"

definition legacy_getMetadata_handler :: "collab \<Rightarrow> event \<Rightarrow> jsval action list" where
  "legacy_getMetadata_handler K ev =
     (case ev of
        Emitted k data \<Rightarrow>
          if k = WEBSOCKET_MESSAGE_KEYS K ''METADATA'' then [Resolve data] else []
      | Acked k response \<Rightarrow>
          if k = WEBSOCKET_MESSAGE_KEYS K ''METADATA'' then
            (case get_prop response ''status'' of
               Inl e \<Rightarrow> []
             | Inr st \<Rightarrow>
                 if st \<noteq> JStr ''success''
                 then [Reject (Error ''Error getting metadata from the SportX API'')]
                 else [])
          else [])"

definition legacy_getMetadata :: "collab \<Rightarrow> world \<Rightarrow> (legacy, jsval) async" where
  "legacy_getMetadata K W =
     then_do legacy_clientSocket (\<lambda>_.
     then_do (perform (SocketOn (WEBSOCKET_MESSAGE_KEYS K ''METADATA''))) (\<lambda>_.
     then_do (perform (SocketEmit (WEBSOCKET_MESSAGE_KEYS K ''METADATA'') JNull)) (\<lambda>_.
     await_Promise W
       [SetTimeout (RELAYER_TIMEOUT K)
          (APITimeoutError ''Timeout getting metadata from the SportX API'')]
       (legacy_getMetadata_handler K))))"

text \<open>In \<open>init\<close> the timer is armed inside the \<open>connect\<close> callback, after
  \<open>resolve()\<close>.\<close>

definition legacy_init_handler :: "collab \<Rightarrow> event \<Rightarrow> unit action list" where
  "legacy_init_handler K ev =
     (case ev of
        Emitted k data \<Rightarrow>
          if k = ''connect''
          then [Resolve (),
                SetTimeout (RELAYER_TIMEOUT K) (Error ''Timeout connecting to the SportX API'')]
          else []
      | Acked k response \<Rightarrow> [])"

definition legacy_init :: "collab \<Rightarrow> world \<Rightarrow> (legacy, unit) async" where
  "legacy_init K W =
     then_do get_self (\<lambda>c.
       if l_initialized c then throw (Error ''Already initialized'')
       else
         then_do (modify (\<lambda>c. c\<lparr>l_clientSocket := Some (l_relayerUrl c)\<rparr>)) (\<lambda>_.
         then_do (perform (SocketOpen (l_relayerUrl c))) (\<lambda>_.
         then_do (perform (SocketOn ''connect'')) (\<lambda>_.
         then_do (await_Promise W [] (legacy_init_handler K)) (\<lambda>_.
         then_do (modify (\<lambda>c. c\<lparr>l_initialized := True\<rparr>)) (\<lambda>_.
         then_do (legacy_getMetadata K W) (\<lambda>metadata.
         modify (\<lambda>c. c\<lparr>l_metadata := metadata\<rparr>))))))))"

text \<open>\<open>const { data } = await response.json()\<close> after a \<open>fetch\<close>.\<close>

definition legacy_fetch_data :: "collab \<Rightarrow> world \<Rightarrow> string \<Rightarrow> ('c, jsval) async" where
  "legacy_fetch_data K W url =
     then_do (fetch W url None None) (\<lambda>response.
     then_do (attempt (JSON_parse K (body_text response))) (\<lambda>json.
     attempt (get_prop json ''data'')))"

definition legacy_getLeagues :: "collab \<Rightarrow> world \<Rightarrow> (legacy, jsval) async" where
  "legacy_getLeagues K W =
     then_do get_self (\<lambda>c.
     legacy_fetch_data K W (l_relayerUrl c @ RELAYER_HTTP_ENDPOINTS K ''LEAGUES''))"

definition legacy_getSports :: "collab \<Rightarrow> world \<Rightarrow> (legacy, jsval) async" where
  "legacy_getSports K W =
     then_do get_self (\<lambda>c.
     legacy_fetch_data K W (l_relayerUrl c @ RELAYER_HTTP_ENDPOINTS K ''SPORTS''))"

text \<open>In \<open>getActiveMarkets\<close> the timer is armed inside the acknowledgement
  callback. A callback that throws (reading \<open>status\<close> of \<open>undefined\<close>) ends there.\<close>

definition legacy_getActiveMarkets_handler :: "collab \<Rightarrow> event \<Rightarrow> jsval action list" where
  "legacy_getActiveMarkets_handler K ev =
     (case ev of
        Emitted k data \<Rightarrow>
          if k = WEBSOCKET_MESSAGE_KEYS K ''ACTIVE_MARKETS'' then [Resolve data] else []
      | Acked k response \<Rightarrow>
          if k = WEBSOCKET_MESSAGE_KEYS K ''ACTIVE_MARKETS'' then
            (case get_prop response ''status'' of
               Inl e \<Rightarrow> []
             | Inr st \<Rightarrow>
                 (if st \<noteq> JStr ''success''
                  then [Reject (Error (''Error getting active markets. Reason: ''
                          @ String_js (field response ''reason'')))]
                  else [])
                 @ [SetTimeout (RELAYER_TIMEOUT K)
                      (APITimeoutError ''Timeout getting active markets from the SportX API'')])
          else [])"

definition legacy_getActiveMarkets :: "collab \<Rightarrow> world \<Rightarrow> (legacy, jsval) async" where
  "legacy_getActiveMarkets K W =
     then_do legacy_clientSocket (\<lambda>_.
     then_do (perform (SocketOn (WEBSOCKET_MESSAGE_KEYS K ''ACTIVE_MARKETS''))) (\<lambda>_.
     then_do (perform (SocketEmit (WEBSOCKET_MESSAGE_KEYS K ''ACTIVE_MARKETS'') JNull)) (\<lambda>_.
     await_Promise W [] (legacy_getActiveMarkets_handler K))))"

text \<open>\<open>newOrder\<close>, lines 180 to 209: validation and the order record
  \<open>apiMakerOrder\<close>.\<close>

definition legacy_apiMakerOrder :: "collab \<Rightarrow> world \<Rightarrow> jsval \<Rightarrow> (legacy, jsval) async" where
  "legacy_apiMakerOrder K W order =
     (let schemaValidation = validateINewOrderSchema K order in
      if schemaValidation \<noteq> ''OK'' then throw (APISchemaError schemaValidation)
      else
        then_do (attempt (get_prop order ''totalBetSize'')) (\<lambda>totalBetSize.
        then_do (attempt (bigNumberify K totalBetSize)) (\<lambda>bigNumBetSize.
        then_do get_self (\<lambda>c.
        then_do (attempt (get_prop (l_metadata c) ''makerOrderMinimum'')) (\<lambda>makerOrderMinimum.
        then_do (attempt (bigNumberify K makerOrderMinimum)) (\<lambda>makerOrderMinimumBigNum.
        if bigNumBetSize < makerOrderMinimumBigNum then
          throw (APISchemaError (''totalBetSize below API minimum of ''
                   @ formatUnits K makerOrderMinimumBigNum 18))
        else
          then_do (randomBytes W 32) (\<lambda>bytes.
          then_do (attempt (bigNumberify K bytes)) (\<lambda>salt.
          then_do (attempt (toString (field order ''expiry''))) (\<lambda>expiry.
          then_do (attempt (get_prop (field (l_metadata c) ''fees'') ''relayerTakerFee''))
            (\<lambda>relayerTakerFee.
          resolve (JObj
            [(''marketHash'', field order ''marketHash''),
             (''maker'', JStr (wallet_address (l_signingWallet c))),
             (''totalBetSize'', JStr (dec_int bigNumBetSize)),
             (''percentageOdds'', field order ''percentageOdds''),
             (''expiry'', expiry),
             (''relayerTakerFee'', relayerTakerFee),
             (''relayerMakerFee'', field (field (l_metadata c) ''fees'') ''relayerMakerFee''),
             (''executor'', field (l_metadata c) ''executorAddress''),
             (''relayer'', field (l_metadata c) ''relayerAddress''),
             (''salt'', JStr (dec_int salt)),
             (''isMakerBettingOutcomeOne'', field order ''isMakerBettingOutcomeOne'')])))))))))))"

definition legacy_newOrder_handler :: "collab \<Rightarrow> event \<Rightarrow> jsval action list" where
  "legacy_newOrder_handler K ev =
     (case ev of
        Emitted k data \<Rightarrow> []
      | Acked k response \<Rightarrow>
          if k = WEBSOCKET_MESSAGE_KEYS K ''NEW_ORDER'' then
            (case get_prop response ''status'' of
               Inl e \<Rightarrow> []
             | Inr st \<Rightarrow>
                 if st = JStr ''success'' then [Resolve response]
                 else [Reject (APIError JUndefined
                         (''Unable to create new order. Status: '' @ String_js st
                          @ ''. Reason: '' @ String_js (field response ''reason'')))])
          else [])"

definition legacy_newOrder :: "collab \<Rightarrow> world \<Rightarrow> jsval \<Rightarrow> (legacy, jsval) async" where
  "legacy_newOrder K W order =
     then_do (legacy_apiMakerOrder K W order) (\<lambda>apiMakerOrder.
     then_do (getOrderSignature W apiMakerOrder) (\<lambda>signature.
     then_do legacy_clientSocket (\<lambda>_.
     then_do (perform (SocketEmit (WEBSOCKET_MESSAGE_KEYS K ''NEW_ORDER'')
                (JObj (spread (own_props apiMakerOrder) [(''signature'', signature)])))) (\<lambda>_.
     await_Promise W
       [SetTimeout (RELAYER_TIMEOUT K)
          (APITimeoutError ''Timeout getting submitting order to the SportX API'')]
       (legacy_newOrder_handler K)))))"

definition legacy_cancelOrder_handler :: "collab \<Rightarrow> event \<Rightarrow> jsval action list" where
  "legacy_cancelOrder_handler K ev =
     (case ev of
        Emitted k data \<Rightarrow> []
      | Acked k response \<Rightarrow>
          if k = WEBSOCKET_MESSAGE_KEYS K ''CANCEL_ORDER'' then
            (case get_prop response ''status'' of
               Inl e \<Rightarrow> []
             | Inr st \<Rightarrow>
                 if st = JStr ''success'' then [Resolve response]
                 else [Reject (APIError JUndefined
                         (''Unable to cancel order. Status: '' @ String_js st
                          @ ''. Reason: '' @ String_js (field response ''reason'')))])
          else [])"

definition legacy_cancelOrder :: "collab \<Rightarrow> world \<Rightarrow> jsval \<Rightarrow> (legacy, jsval) async" where
  "legacy_cancelOrder K W orderHashes =
     (let schemaValidation = validateOrderHashArray K orderHashes in
      if schemaValidation \<noteq> ''OK'' then throw (APISchemaError schemaValidation)
      else
        then_do (attempt (array_of orderHashes ''map'')) (\<lambda>hashes.
        then_do (attempt (solidityKeccak256 K
                   (map (\<lambda>h. ''bytes32'') hashes @ [''bool''])
                   (hashes @ [JBool True]))) (\<lambda>signingPayload.
        then_do (await (SignMessage (arrayify K signingPayload))
                   (\<lambda>t. w_signMessage W t (arrayify K signingPayload))) (\<lambda>cancelSignature.
        then_do legacy_clientSocket (\<lambda>_.
        then_do (perform (SocketEmit (WEBSOCKET_MESSAGE_KEYS K ''CANCEL_ORDER'')
                   (JObj [(''orderHashes'', orderHashes),
                          (''cancelSignature'', cancelSignature)]))) (\<lambda>_.
        await_Promise W
          [SetTimeout (RELAYER_TIMEOUT K)
             (APITimeoutError ''Timeout getting submitting order to the SportX API'')]
          (legacy_cancelOrder_handler K)))))))"

text \<open>One pending bet, as \<open>getRecentPendingBets\<close> formats it.\<close>

definition legacy_formatPendingBet :: "collab \<Rightarrow> jsval \<Rightarrow> error + jsval" where
  "legacy_formatPendingBet K bet =
     (case get_prop bet ''marketHashes'' of
        Inl e \<Rightarrow> Inl e
      | Inr marketHashes \<Rightarrow>
     (case array_of (field bet ''percentageOdds'') ''map'' of
        Inl e \<Rightarrow> Inl e
      | Inr odds \<Rightarrow>
     (case map_try (\<lambda>odd. map_sum id (convertToDecimalOdds K) (bigNumberify K odd)) odds of
        Inl e \<Rightarrow> Inl e
      | Inr impliedOdds \<Rightarrow>
     (case array_of (field bet ''fillAmounts'') ''map'' of
        Inl e \<Rightarrow> Inl e
      | Inr amounts \<Rightarrow>
     (case map_try (\<lambda>amount. map_sum id (\<lambda>n. Number_js K (convertToDisplayAmount K n))
                      (bigNumberify K amount)) amounts of
        Inl e \<Rightarrow> Inl e
      | Inr fillAmounts \<Rightarrow>
          Inr (JObj
            [(''marketHashes'', marketHashes),
             (''impliedOdds'', JArr impliedOdds),
             (''isMakerBettingOutcomeOne'', field bet ''isMakerBettingOutcomeOne''),
             (''taker'', field bet ''taker''),
             (''fillAmounts'', JArr fillAmounts),
             (''orderHashes'', field bet ''orderHashes''),
             (''status'', field bet ''status''),
             (''betTime'', field bet ''betTime'')]))))))"

definition legacy_getRecentPendingBets :: "collab \<Rightarrow> world \<Rightarrow> jsval \<Rightarrow> (legacy, jsval) async" where
  "legacy_getRecentPendingBets K W address =
     (if \<not> isAddress K address then
        throw (APISchemaError (''Address '' @ String_js address @ '' is not a valid address''))
      else
        then_do get_self (\<lambda>c.
        then_do (legacy_fetch_data K W
                   (l_relayerUrl c @ RELAYER_HTTP_ENDPOINTS K ''PENDING_BETS'' @ ''/''
                    @ String_js address)) (\<lambda>data.
        then_do (attempt (array_of data ''map'')) (\<lambda>pendingBets.
        then_do (attempt (map_try (legacy_formatPendingBet K) pendingBets))
          (\<lambda>formattedPendingBets.
        resolve (JArr formattedPendingBets))))))"

definition legacy_getOrders :: "collab \<Rightarrow> world \<Rightarrow> jsval \<Rightarrow> (legacy, jsval) async" where
  "legacy_getOrders K W marketHash =
     (if \<not> isHexString K marketHash then
        throw (APISchemaError
          (''Market hash '' @ String_js marketHash @ '' is not a valid hash string.''))
      else
        then_do get_self (\<lambda>c.
        legacy_fetch_data K W
          (l_relayerUrl c @ RELAYER_HTTP_ENDPOINTS K ''ORDERS'' @ ''/'' @ String_js marketHash)))"

definition legacy_getActiveOrders :: "collab \<Rightarrow> world \<Rightarrow> jsval \<Rightarrow> (legacy, jsval) async" where
  "legacy_getActiveOrders K W account =
     (if \<not> isAddress K account then
        throw (APISchemaError (''Address '' @ String_js account @ '' is not a valid address''))
      else
        then_do get_self (\<lambda>c.
        legacy_fetch_data K W
          (l_relayerUrl c @ RELAYER_HTTP_ENDPOINTS K ''ACTIVE_ORDERS'' @ ''/''
           @ String_js account)))"

text \<open>\<open>newSportX\<close>: construct, then \<open>init\<close>.\<close>

definition legacy_newSportX ::
  "collab \<Rightarrow> world \<Rightarrow> jsval \<Rightarrow> jsval \<Rightarrow> effect list \<Rightarrow> error + unit outcome \<times> legacy state" where
  "legacy_newSportX K W env privateKey t =
     (case legacy_SportX K env privateKey of
        Inl e \<Rightarrow> Inl e
      | Inr c \<Rightarrow> Inr (legacy_init K W \<lparr>self = c, trace = t\<rparr>))"


section \<open>The modern client (\<open>src/unnamed/part_000\<close>)\<close>

text \<open>A \<open>Web3Provider\<close> carries the \<open>isMetaMask\<close> flag of the provider it wraps; a
  \<open>JsonRpcProvider\<close> wraps none. A signer is a wallet made from a private key, or
  account \<open>i\<close> of a provider.\<close>

datatype provider = JsonRpcProvider jsval | Web3Provider jsval

datatype signer = WalletSigner wallet | JsonRpcSigner nat

record modern =
  m_mainchainSigningWallet :: signer
  m_relayerUrl :: string
  m_mainchainProvider :: provider
  m_sidechainProvider :: provider
  m_initialized :: bool
  m_metadata :: jsval
  m_ably :: "string option"
  m_environment :: jsval
  m_privateKey :: jsval
  m_mainchainChainId :: jsval
  m_mainchainNetwork :: string
  m_sidechainNetwork :: string
  m_baseTokenWrappers :: "(string \<times> string) list"

definition modern_SportX ::
  "collab \<Rightarrow> jsval \<Rightarrow> jsval \<Rightarrow> jsval \<Rightarrow> jsval \<Rightarrow> provider option \<Rightarrow> error + modern" where
  "modern_SportX K env sidechainProviderUrl privateKey mainchainProviderUrl mainchainProvider =
     (if \<not> truthy sidechainProviderUrl then Inl (Error ''sidechainProviderUrl not provided'')
      else
        (case
           (if truthy privateKey \<and> \<not> isHexString K privateKey then
              Inl (Error (String_js privateKey @ '' is not a valid private key.''))
            else if truthy privateKey then
              (if \<not> truthy mainchainProviderUrl then
                 Inl (Error (String_js mainchainProviderUrl
                   @ '' is not provided. Required for initialization via private key''))
               else
                 (case new_Wallet K privateKey of
                    Inl e \<Rightarrow> Inl e
                  | Inr w \<Rightarrow>
                      Inr (WalletSigner w, JsonRpcProvider mainchainProviderUrl, privateKey)))
            else
              (case mainchainProvider of
                 Some p \<Rightarrow> Inr (JsonRpcSigner 0, p, JUndefined)
               | None \<Rightarrow> Inl (Error ''Neither privateKey nor both providers provided.'')))
         of
           Inl e \<Rightarrow> Inl e
         | Inr (wallet, prov, key) \<Rightarrow>
             if env \<notin> set (Environments K) then
               Inl (Error (''Invalid environment: '' @ String_js env))
             else
               Inr \<lparr>m_mainchainSigningWallet = wallet,
                    m_relayerUrl = RELAYER_URLS K env,
                    m_mainchainProvider = prov,
                    m_sidechainProvider = JsonRpcProvider sidechainProviderUrl,
                    m_initialized = False,
                    m_metadata = JUndefined,
                    m_ably = None,
                    m_environment = env,
                    m_privateKey = key,
                    m_mainchainChainId = JUndefined,
                    m_mainchainNetwork = getMainchainNetwork K env,
                    m_sidechainNetwork = getSidechainNetwork K env,
                    m_baseTokenWrappers = []\<rparr>))"

definition modern_getRealtimeConnection :: "modern \<Rightarrow> string option" where
  "modern_getRealtimeConnection c = m_ably c"

text \<open>\<open>this.mainchainSigningWallet.getAddress()\<close>: a wallet knows its address, a
  provider's signer asks the provider.\<close>

definition modern_getAddress :: "world \<Rightarrow> (modern, jsval) async" where
  "modern_getAddress W =
     then_do get_self (\<lambda>c.
       case m_mainchainSigningWallet c of
         WalletSigner w \<Rightarrow> resolve (JStr (wallet_address w))
       | JsonRpcSigner i \<Rightarrow> await GetAddress (w_getAddress W))"

definition tryParseResponse :: "collab \<Rightarrow> response \<Rightarrow> string \<Rightarrow> ('c, jsval) async" where
  "tryParseResponse K response errorMessage =
     (let textResponse = body_text response;
          parsed = tryParseJson K textResponse;
          result = fst parsed;
          valid = snd parsed
      in if valid \<and> status response \<noteq> 200 then
           throw (APIError result
             (errorMessage @ ''. Response code: '' @ dec_nat (status response)))
         else if \<not> valid then
           throw (APIError JUndefined (''Can't parse JSON '' @ textResponse))
         else resolve result)"

text \<open>The request that every HTTP method of the class makes: \<open>fetch\<close>, then
  \<open>tryParseResponse\<close>. A body is sent as its JSON text with the header
  \<open>Content-Type: application/json\<close>.\<close>

definition modern_request ::
  "collab \<Rightarrow> world \<Rightarrow> string \<Rightarrow> string option \<Rightarrow> jsval option \<Rightarrow> string \<Rightarrow> (modern, jsval) async" where
  "modern_request K W endpoint method body errorMessage =
     then_do get_self (\<lambda>c.
     then_do (fetch W (m_relayerUrl c @ RELAYER_HTTP_ENDPOINTS K endpoint) method body)
       (\<lambda>response.
     tryParseResponse K response errorMessage))"

definition modern_getMetadata :: "collab \<Rightarrow> world \<Rightarrow> (modern, jsval) async" where
  "modern_getMetadata K W =
     then_do (modern_request K W ''METADATA'' None None ''Can't fetch metadata'') (\<lambda>result.
     attempt (get_prop result ''data''))"

definition modern_getLeagues :: "collab \<Rightarrow> world \<Rightarrow> (modern, jsval) async" where
  "modern_getLeagues K W =
     then_do (modern_request K W ''LEAGUES'' None None ''Can't fetch leagues'') (\<lambda>result.
     attempt (get_prop result ''data''))"

definition modern_getSports :: "collab \<Rightarrow> world \<Rightarrow> (modern, jsval) async" where
  "modern_getSports K W =
     then_do (modern_request K W ''SPORTS'' None None ''Can't fetch sports'') (\<lambda>result.
     attempt (get_prop result ''data''))"

definition modern_getActiveMarkets :: "collab \<Rightarrow> world \<Rightarrow> (modern, jsval) async" where
  "modern_getActiveMarkets K W =
     then_do (modern_request K W ''ACTIVE_MARKETS'' None None ''Can't fetch active markets'')
       (\<lambda>result.
     then_do (attempt (get_prop result ''data'')) (\<lambda>data.
     attempt (get_prop data ''markets'')))"

definition modern_init_handler :: "event \<Rightarrow> unit action list" where
  "modern_init_handler ev =
     (case ev of
        Emitted k data \<Rightarrow> if k = ''connected'' then [Resolve ()] else []
      | Acked k response \<Rightarrow> [])"

definition modern_init :: "collab \<Rightarrow> world \<Rightarrow> (modern, unit) async" where
  "modern_init K W =
     then_do get_self (\<lambda>c.
       if m_initialized c then throw (Error ''Already initialized'')
       else
         then_do (modify (\<lambda>c. c\<lparr>m_ably := Some (m_relayerUrl c @ ''/user/token'')\<rparr>)) (\<lambda>_.
         then_do (perform (AblyOpen (m_relayerUrl c @ ''/user/token''))) (\<lambda>_.
         then_do (perform (AblyOn ''connected'')) (\<lambda>_.
         then_do (await_Promise W [SetTimeout (RELAYER_TIMEOUT K) RejectedUndefined]
                    modern_init_handler) (\<lambda>_.
         then_do (modern_getMetadata K W) (\<lambda>metadata.
         then_do (modify (\<lambda>c. c\<lparr>m_metadata := metadata\<rparr>)) (\<lambda>_.
         then_do (await GetNetwork (w_getNetwork W)) (\<lambda>mainchainNetwork.
         then_do (attempt (get_prop mainchainNetwork ''chainId'')) (\<lambda>chainId.
         then_do (modify (\<lambda>c. c\<lparr>m_mainchainChainId := chainId\<rparr>)) (\<lambda>_.
         then_do (modify (\<lambda>c. c\<lparr>m_baseTokenWrappers :=
                    foldl (\<lambda>ws (symbol, address).
                             put address (if symbol = Tokens_DAI K then ''DAI'' else ''IERC20'') ws)
                      (m_baseTokenWrappers c)
                      (TOKEN_ADDRESSES K (m_mainchainNetwork c))\<rparr>)) (\<lambda>_.
         then_do (modify (\<lambda>c. c\<lparr>m_baseTokenWrappers :=
                    foldl (\<lambda>ws (symbol, address). put address ''ChildERC20'' ws)
                      (m_baseTokenWrappers c)
                      (TOKEN_ADDRESSES K (m_sidechainNetwork c))\<rparr>)) (\<lambda>_.
         modify (\<lambda>c. c\<lparr>m_initialized := True\<rparr>)))))))))))))"

text \<open>\<open>getEip712Signature\<close>: with a private key the payload is signed in the process;
  otherwise the provider is asked, with \<open>eth_signTypedData_v4\<close> (the payload sent as
  its JSON text) when it says it is MetaMask and with \<open>eth_signTypedData\<close> when not.\<close>

definition getEip712Signature :: "collab \<Rightarrow> world \<Rightarrow> jsval \<Rightarrow> (modern, jsval) async" where
  "getEip712Signature K W payload =
     then_do get_self (\<lambda>c.
       if truthy (m_privateKey c) then
         then_do (perform (SignTypedDataLocal (m_privateKey c) payload)) (\<lambda>_.
         attempt (signTypedData_v4 K (m_privateKey c) payload))
       else
         (case m_mainchainProvider c of
            JsonRpcProvider u \<Rightarrow>
              throw (TypeError ''Cannot read property isMetaMask of undefined'')
          | Web3Provider isMetaMask \<Rightarrow>
              if isMetaMask = JBool True then
                then_do (modern_getAddress W) (\<lambda>walletAddress.
                await (ProviderSend ''eth_signTypedData_v4'' [walletAddress, payload])
                  (\<lambda>t. w_send W t ''eth_signTypedData_v4'' [walletAddress, payload]))
              else
                then_do (modern_getAddress W) (\<lambda>walletAddress.
                await (ProviderSend ''eth_signTypedData'' [walletAddress, payload])
                  (\<lambda>t. w_send W t ''eth_signTypedData'' [walletAddress, payload]))))"


definition modern_marketLookup :: "collab \<Rightarrow> world \<Rightarrow> jsval \<Rightarrow> (modern, jsval) async" where
  "modern_marketLookup K W marketHashes =
     (if \<not> isArray marketHashes \<or> \<not> list_all (isHexString K) (elements marketHashes) then
        throw (APISchemaError ''marketHashes is not a hex string '')
      else
        then_do (modern_request K W ''HISTORICAL_MARKETS'' (Some ''POST'')
                   (Some (JObj [(''marketHashes'', marketHashes)])) ''Can't lookup markets'')
          (\<lambda>result.
        attempt (get_prop result ''data'')))"

text \<open>\<open>newOrder\<close>, lines 308 to 324: validation and the order record
  \<open>apiMakerOrder\<close>.\<close>

definition modern_apiMakerOrder :: "collab \<Rightarrow> world \<Rightarrow> jsval \<Rightarrow> (modern, jsval) async" where
  "modern_apiMakerOrder K W order =
     (let schemaValidation = validateINewOrderSchema K order in
      if schemaValidation \<noteq> ''OK'' then throw (APISchemaError schemaValidation)
      else
        then_do (attempt (get_prop order ''totalBetSize'')) (\<lambda>totalBetSize.
        then_do (attempt (bigNumberify K totalBetSize)) (\<lambda>bigNumBetSize.
        then_do (randomBytes W 32) (\<lambda>bytes.
        then_do (attempt (bigNumberify K bytes)) (\<lambda>salt.
        then_do (modern_getAddress W) (\<lambda>maker.
        then_do (attempt (toString (field order ''expiry''))) (\<lambda>expiry.
        then_do get_self (\<lambda>c.
        then_do (attempt (get_prop (m_metadata c) ''executorAddress'')) (\<lambda>executor.
        resolve (JObj
          [(''marketHash'', field order ''marketHash''),
           (''maker'', maker),
           (''totalBetSize'', JStr (dec_int bigNumBetSize)),
           (''percentageOdds'', field order ''percentageOdds''),
           (''expiry'', expiry),
           (''executor'', executor),
           (''baseToken'', field order ''baseToken''),
           (''salt'', JStr (dec_int salt)),
           (''isMakerBettingOutcomeOne'', field order ''isMakerBettingOutcomeOne'')]))))))))))"

definition modern_newOrder :: "collab \<Rightarrow> world \<Rightarrow> jsval \<Rightarrow> (modern, jsval) async" where
  "modern_newOrder K W order =
     then_do (modern_apiMakerOrder K W order) (\<lambda>apiMakerOrder.
     then_do (getOrderSignature W apiMakerOrder) (\<lambda>signature.
     modern_request K W ''NEW_ORDER'' (Some ''POST'')
       (Some (JObj [(''orders'',
          JArr [JObj (spread (own_props apiMakerOrder) [(''signature'', signature)])])]))
       ''Can't submit new order''))"

definition modern_suggestOrders ::
  "collab \<Rightarrow> world \<Rightarrow> jsval \<Rightarrow> jsval \<Rightarrow> jsval \<Rightarrow> jsval \<Rightarrow> jsval \<Rightarrow> (modern, jsval) async" where
  "modern_suggestOrders K W marketHash betSize takerDirectionOutcomeOne taker baseToken =
     (if \<not> isHexString K marketHash then
        throw (APISchemaError ''marketHash is not a hex string '')
      else if \<not> isPositiveBigNumber K betSize then
        throw (APISchemaError ''betSize as a number is not positive'')
      else if \<not> isBoolean takerDirectionOutcomeOne then
        throw (APISchemaError ''takerDirectionOutcomeOne is not a boolean'')
      else if \<not> isAddress K taker then
        throw (APISchemaError ''taker is not a valid address'')
      else if \<not> isAddress K baseToken then
        throw (APISchemaError ''baseToken is not a valid address'')
      else
        modern_request K W ''SUGGEST_ORDERS'' (Some ''POST'')
          (Some (JObj
            [(''marketHash'', marketHash),
             (''takerPayAmount'', betSize),
             (''takerDirection'',
                JStr (if truthy takerDirectionOutcomeOne then ''outcomeOne'' else ''outcomeTwo'')),
             (''taker'', taker),
             (''baseToken'', baseToken)]))
          ''Can't get suggested orders'')"

text \<open>\<open>fillOrders\<close>, lines 412 to 435: the checks, in the order of the source. The
  \<open>forEach\<close> throws at the first order that does not validate.\<close>

definition modern_fillOrders_validate ::
  "collab \<Rightarrow> jsval \<Rightarrow> jsval \<Rightarrow> jsval \<Rightarrow> jsval \<Rightarrow> error + jsval list" where
  "modern_fillOrders_validate K orders takerAmounts fillDetailsMetadata affiliateAddress =
     (case array_of orders ''forEach'' of
        Inl e \<Rightarrow> Inl e
      | Inr os \<Rightarrow>
          (case find (\<lambda>order. validateISignedRelayerMakerOrder K order \<noteq> ''OK'') os of
             Some order \<Rightarrow> Inl (APISchemaError (validateISignedRelayerMakerOrder K order))
           | None \<Rightarrow>
               if truthy affiliateAddress \<and> \<not> isAddress K affiliateAddress then
                 Inl (APISchemaError ''Affiliate address malformed.'')
               else if truthy fillDetailsMetadata
                       \<and> validateIFillDetailsMetadata K fillDetailsMetadata \<noteq> ''OK'' then
                 Inl (APISchemaError (validateIFillDetailsMetadata K fillDetailsMetadata))
               else if \<not> isArray takerAmounts then
                 Inl (APISchemaError ''takerAmounts is not an array'')
               else if \<not> list_all (isPositiveBigNumber K) (elements takerAmounts) then
                 Inl (APISchemaError ''takerAmounts has some invalid number strings'')
               else Inr os))"

text \<open>Lines 439 to 446: \<open>fillDetailsMetadata || { action: "N/A", ... }\<close>.\<close>

definition finalFillDetailsMetadata :: "jsval \<Rightarrow> jsval" where
  "finalFillDetailsMetadata fillDetailsMetadata =
     or_else fillDetailsMetadata
       (JObj [(''action'', JStr ''N/A''), (''market'', JStr ''N/A''),
              (''betting'', JStr ''N/A''), (''stake'', JStr ''N/A''),
              (''odds'', JStr ''N/A''), (''returning'', JStr ''N/A'')])"

text \<open>Lines 447 to 455: the \<open>fillDetails\<close> record, from the orders, the taker amounts,
  the metadata and the salt of the fill.\<close>

definition modern_fillDetails ::
  "collab \<Rightarrow> int \<Rightarrow> jsval list \<Rightarrow> jsval \<Rightarrow> jsval \<Rightarrow> error + jsval" where
  "modern_fillDetails K fillSalt os takerAmounts metadata =
     (case map_try (\<lambda>order. get_prop order ''signature'') os of
        Inl e \<Rightarrow> Inl e
      | Inr makerSigs \<Rightarrow>
          (case map_try (\<lambda>amount. map_sum id JBig (bigNumberify K amount))
                  (elements takerAmounts) of
             Inl e \<Rightarrow> Inl e
           | Inr amounts \<Rightarrow>
               Inr (JObj (put ''fills''
                 (JObj [(''orders'', JArr (map (convertToContractOrder K) os)),
                        (''makerSigs'', JArr makerSigs),
                        (''takerAmounts'', JArr amounts),
                        (''fillSalt'', JBig fillSalt)])
                 (own_props metadata)))))"

definition modern_fillOrders ::
  "collab \<Rightarrow> world \<Rightarrow> jsval \<Rightarrow> jsval \<Rightarrow> jsval \<Rightarrow> jsval \<Rightarrow> jsval \<Rightarrow> (modern, jsval) async" where
  "modern_fillOrders K W orders takerAmounts fillDetailsMetadata affiliateAddress
       approveProxyPayload =
     then_do (attempt (modern_fillOrders_validate K orders takerAmounts fillDetailsMetadata
                affiliateAddress)) (\<lambda>os.
     then_do (randomBytes W 32) (\<lambda>bytes.
     then_do (attempt (bigNumberify K bytes)) (\<lambda>fillSalt.
     then_do (attempt (modern_fillDetails K fillSalt os takerAmounts
                (finalFillDetailsMetadata fillDetailsMetadata))) (\<lambda>fillDetails.
     then_do get_self (\<lambda>c.
     then_do (getEip712Signature K W
                (getFillOrderEIP712Payload K fillDetails (m_mainchainChainId c)
                   (EIP712_FILL_HASHER_ADDRESSES K (m_environment c)))) (\<lambda>takerSignature.
     then_do (modern_getAddress W) (\<lambda>taker.
     modern_request K W ''FILL_ORDERS'' (Some ''POST'')
       (Some (JObj
         (put ''approveProxyPayload'' approveProxyPayload
         (put ''affiliateAddress'' affiliateAddress
         (spread
            [(''orderHashes'',
                JArr (map (getOrderHash K) (map (convertToContractOrder K) os))),
             (''takerAmounts'', takerAmounts),
             (''taker'', taker),
             (''takerSig'', takerSignature),
             (''fillSalt'', JStr (dec_int fillSalt))]
            (own_props (finalFillDetailsMetadata fillDetailsMetadata)))))))
       ''Can't fill orders.'')))))))"

text \<open>\<open>cancelOrder\<close>, lines 490 to 503: the checks and the \<open>cancelDetails\<close> record.\<close>

definition modern_cancelDetails :: "collab \<Rightarrow> jsval \<Rightarrow> jsval \<Rightarrow> error + jsval" where
  "modern_cancelDetails K orderHashes message =
     (if \<not> isArray orderHashes then Inl (APISchemaError ''orderHashes is not an array'')
      else if \<not> list_all (isHexString K) (elements orderHashes) then
        Inl (APISchemaError ''orderHashes has some invalid order hashes.'')
      else if truthy message \<and> typeof message \<noteq> ''string'' then
        Inl (APISchemaError ''message is not a string'')
      else
        Inr (JObj [(''orders'', orderHashes),
                   (''message'', or_else message (JStr ''N/A''))]))"

definition modern_cancelOrder :: "collab \<Rightarrow> world \<Rightarrow> jsval \<Rightarrow> jsval \<Rightarrow> (modern, jsval) async" where
  "modern_cancelOrder K W orderHashes message =
     then_do (attempt (modern_cancelDetails K orderHashes message)) (\<lambda>cancelDetails.
     then_do get_self (\<lambda>c.
     then_do (getEip712Signature K W
                (getCancelOrderEIP712Payload K cancelDetails (m_mainchainChainId c)))
       (\<lambda>cancelSignature.
     modern_request K W ''CANCEL_ORDERS'' (Some ''POST'')
       (Some (JObj (spread (own_props cancelDetails) [(''cancelSignature'', cancelSignature)])))
       ''Can't cancel orders.'')))"

definition modern_getPendingOrFailedBets :: "collab \<Rightarrow> world \<Rightarrow> jsval \<Rightarrow> (modern, jsval) async" where
  "modern_getPendingOrFailedBets K W request =
     (let validation = validateIGetPendingBetsRequest K request in
      if validation \<noteq> ''OK'' then throw (APISchemaError validation)
      else
        then_do (modern_request K W ''PENDING_BETS'' (Some ''POST'') (Some request)
                   ''Can't get recent pending bets'') (\<lambda>result.
        then_do (attempt (get_prop result ''data'')) (\<lambda>data.
        attempt (get_prop data ''bets''))))"

definition modern_getTrades :: "collab \<Rightarrow> world \<Rightarrow> jsval \<Rightarrow> (modern, jsval) async" where
  "modern_getTrades K W tradeRequest =
     (let validation = validateIGetTradesRequest K tradeRequest in
      if validation \<noteq> ''OK'' then throw (APISchemaError validation)
      else
        then_do (modern_request K W ''TRADES'' (Some ''POST'') (Some tradeRequest)
                   ''Can't get trades'') (\<lambda>result.
        then_do (attempt (get_prop result ''data'')) (\<lambda>data.
        attempt (get_prop data ''trades''))))"

text \<open>\<open>getOrders\<close>: each argument is checked only when it is truthy, and only then
  is it part of the request.\<close>

definition modern_getOrders ::
  "collab \<Rightarrow> world \<Rightarrow> jsval \<Rightarrow> jsval \<Rightarrow> jsval \<Rightarrow> (modern, jsval) async" where
  "modern_getOrders K W marketHashes maker baseToken =
     then_do (if truthy marketHashes then attempt (array_of marketHashes ''every'')
              else resolve []) (\<lambda>hashes.
       if truthy marketHashes \<and> \<not> list_all (isHexString K) hashes then
         throw (APISchemaError ''One of the supplied market hashes is not a valid hex string.'')
       else if truthy maker \<and> \<not> isAddress K maker then
         throw (APISchemaError ''maker is not a valid address'')
       else if truthy baseToken \<and> \<not> isAddress K baseToken then
         throw (APISchemaError ''baseToken is not a valid address'')
       else
         then_do (modern_request K W ''ORDERS'' (Some ''POST'')
                    (Some (JObj
                      ((if truthy marketHashes then [(''marketHashes'', marketHashes)] else [])
                       @ (if truthy maker then [(''maker'', maker)] else [])
                       @ (if truthy baseToken then [(''baseToken'', baseToken)] else []))))
                    ''Can't get orders'') (\<lambda>result.
         attempt (get_prop result ''data'')))"

text \<open>\<open>approveSportXContractsDai\<close>. \<open>dai\<close> is
  \<open>TOKEN_ADDRESSES[this.mainchainNetwork][Tokens.DAI]\<close>; calling \<open>nonces\<close> on a
  wrapper that is not there throws.\<close>

definition modern_approveSportXContractsDai :: "collab \<Rightarrow> world \<Rightarrow> (modern, jsval) async" where
  "modern_approveSportXContractsDai K W =
     then_do (modern_getAddress W) (\<lambda>walletAddress.
     then_do get_self (\<lambda>c.
     (case map_of (TOKEN_ADDRESSES K (m_mainchainNetwork c)) (Tokens_DAI K) of
        None \<Rightarrow> throw (TypeError ''Cannot read property nonces of undefined'')
      | Some dai \<Rightarrow>
     (case map_of (m_baseTokenWrappers c) dai of
        None \<Rightarrow> throw (TypeError ''Cannot read property nonces of undefined'')
      | Some abi \<Rightarrow>
          then_do (await (ContractNonces dai walletAddress)
                     (\<lambda>t. w_nonces W t dai walletAddress)) (\<lambda>nonce.
          then_do (attempt (toNumber K nonce)) (\<lambda>nonceNumber.
          (let details =
                 [(''holder'', walletAddress),
                  (''spender'', TOKEN_TRANSFER_PROXY_ADDRESS K (m_environment c)),
                  (''nonce'', nonceNumber),
                  (''expiry'', JNum 0),
                  (''allowed'', JBool True)]
           in then_do (getEip712Signature K W
                         (getDaiPermitEIP712Payload K (JObj details) (m_mainchainChainId c)
                            (JStr dai))) (\<lambda>signature.
              modern_request K W ''DAI_APPROVAL'' (Some ''POST'')
                (Some (JObj (spread details [(''signature'', signature)])))
                ''Can't approx SportX contracts''))))))))"

definition modern_newSportX ::
  "collab \<Rightarrow> world \<Rightarrow> jsval \<Rightarrow> jsval \<Rightarrow> jsval \<Rightarrow> jsval \<Rightarrow> provider option \<Rightarrow> effect list
     \<Rightarrow> error + unit outcome \<times> modern state" where
  "modern_newSportX K W env sidechainProviderUrl privateKey mainchainProviderUrl
       mainchainProvider t =
     (case modern_SportX K env sidechainProviderUrl privateKey mainchainProviderUrl
             mainchainProvider of
        Inl e \<Rightarrow> Inl e
      | Inr c \<Rightarrow> Inr (modern_init K W \<lparr>self = c, trace = t\<rparr>))"


section \<open>A sample instance of the parameters\<close>

text \<open>
  The theorems below hold for every collaborator \<open>K\<close> and every world \<open>W\<close>. To run
  the model on concrete inputs one instance of each is fixed here. The helpers of the
  repository stand in for files that are not among the sources; the library functions
  are given their common cases only.
\<close>

definition hex_digit :: "char \<Rightarrow> bool" where
  "hex_digit c = (c \<in> set ''0123456789abcdefABCDEF'')"

definition dec_digit :: "char \<Rightarrow> bool" where
  "dec_digit c = (c \<in> set ''0123456789'')"

definition undec :: "string \<Rightarrow> nat" where
  "undec s = foldl (\<lambda>acc c. 10 * acc + (of_char c - 48)) 0 s"

text \<open>Modelled from the spec: \<open>isHexString\<close> as ethers has it and \<open>isAddress\<close>,
  \<open>isPositiveBigNumber\<close> of \<open>./utils/validation\<close>, which is missing from the
  sources: "hex-string format checks for hashes, checksum-address format checks for
  Ethereum addresses, positive-decimal-string checks for monetary amounts". The
  checksum of an address is not computed: 40 hexadecimal digits after \<open>0x\<close>.\<close>

definition sample_isHexString :: "jsval \<Rightarrow> bool" where
  "sample_isHexString v =
     (case v of JStr s \<Rightarrow> take 2 s = ''0x'' \<and> list_all hex_digit (drop 2 s) | _ \<Rightarrow> False)"

definition sample_isAddress :: "jsval \<Rightarrow> bool" where
  "sample_isAddress v = (sample_isHexString v \<and> length (String_js v) = 42)"

definition sample_isPositiveBigNumber :: "jsval \<Rightarrow> bool" where
  "sample_isPositiveBigNumber v =
     (case v of JStr s \<Rightarrow> s \<noteq> [] \<and> list_all dec_digit s \<and> 0 < undec s | _ \<Rightarrow> False)"

text \<open>Modelled from the spec: the validators of \<open>./utils/validation\<close>, which is missing
  from the sources. They "consume raw request objects, return "OK" or a human-readable
  violation string", with "boolean-type checks for direction flags, and array-shape
  checks for batch hash lists"; the fields are those of the spec's data model.\<close>

definition sample_validateINewOrderSchema :: "jsval \<Rightarrow> string" where
  "sample_validateINewOrderSchema order =
     (if \<not> sample_isHexString (field order ''marketHash'') then
        ''marketHash is not a valid hex string''
      else if \<not> sample_isPositiveBigNumber (field order ''totalBetSize'') then
        ''totalBetSize as a number is not positive''
      else if \<not> isBoolean (field order ''isMakerBettingOutcomeOne'') then
        ''isMakerBettingOutcomeOne is not a boolean''
      else ''OK'')"

definition sample_validateOrderHashArray :: "jsval \<Rightarrow> string" where
  "sample_validateOrderHashArray v =
     (if \<not> isArray v then ''orderHashes is not an array''
      else if \<not> list_all sample_isHexString (elements v) then
        ''orderHashes has some invalid order hashes.''
      else ''OK'')"

definition sample_validateISignedRelayerMakerOrder :: "jsval \<Rightarrow> string" where
  "sample_validateISignedRelayerMakerOrder order =
     (if sample_validateINewOrderSchema order \<noteq> ''OK'' then sample_validateINewOrderSchema order
      else if \<not> sample_isAddress (field order ''maker'') then ''maker is not a valid address''
      else if \<not> sample_isHexString (field order ''signature'') then
        ''signature is not a valid hex string''
      else ''OK'')"

definition sample_validateIFillDetailsMetadata :: "jsval \<Rightarrow> string" where
  "sample_validateIFillDetailsMetadata m =
     (if list_all (\<lambda>k. field m k = JUndefined \<or> typeof (field m k) = ''string'')
           [''action'', ''market'', ''betting'', ''stake'', ''odds'', ''returning'']
      then ''OK'' else ''metadata field is not a string'')"

definition sample_validateRequest :: "jsval \<Rightarrow> string" where
  "sample_validateRequest r = (case r of JObj fs \<Rightarrow> ''OK'' | _ \<Rightarrow> ''request is not an object'')"

text \<open>Modelled from the spec: \<open>tryParseJson\<close> of \<open>./utils/misc\<close>, which is missing from
  the sources. A body parses as JSON or it does not; this one reads the three bodies
  that the sample relayer sends and no other text.\<close>

definition sample_tryParseJson :: "string \<Rightarrow> jsval \<times> bool" where
  \<open>sample_tryParseJson t =
     (if t = ''{"status":"success","data":{"markets":[],"bets":[],"trades":[]}}'' then
        (JObj [(''status'', JStr ''success''),
               (''data'', JObj [(''markets'', JArr []), (''bets'', JArr []),
                                (''trades'', JArr [])])], True)
      else if t = ''{"status":"failure","reason":"down"}'' then
        (JObj [(''status'', JStr ''failure''), (''reason'', JStr ''down'')], True)
      else if t = ''null'' then (JNull, True)
      else (JUndefined, False))\<close>

text \<open>Modelled from the spec: the payload builders of \<open>./utils/signing\<close>, which is
  missing from the sources. The whole structure "(not just a hash) is what gets
  EIP-712-signed": the details are the \<open>message\<close> of the typed data.\<close>

definition sample_typedData :: "string \<Rightarrow> jsval \<Rightarrow> jsval \<Rightarrow> jsval" where
  "sample_typedData primaryType details chainId =
     JObj [(''primaryType'', JStr primaryType),
           (''domain'', JObj [(''chainId'', chainId)]),
           (''message'', details)]"

definition sample_wallet :: wallet where
  "sample_wallet =
     \<lparr>wallet_privateKey = JStr ''0x01'',
      wallet_address = ''0x1111111111111111111111111111111111111111''\<rparr>"

definition sample_collab :: collab where
  "sample_collab =
     \<lparr>RELAYER_TIMEOUT = 10000,
      RELAYER_HTTP_ENDPOINTS = (\<lambda>name. ''/'' @ name),
      WEBSOCKET_MESSAGE_KEYS = (\<lambda>name. name),
      PRODUCTION_RELAYER_URL = ''https://relayer'',
      RINKEBY_RELAYER_URL = ''https://rinkeby.relayer'',
      RELAYER_URLS = (\<lambda>env. ''https://relayer''),
      Environments = [JStr ''production'', JStr ''rinkeby''],
      Environments_PRODUCTION = JStr ''production'',
      Environments_RINKEBY = JStr ''rinkeby'',
      EIP712_FILL_HASHER_ADDRESSES =
        (\<lambda>env. JStr ''0x2222222222222222222222222222222222222222''),
      TOKEN_TRANSFER_PROXY_ADDRESS =
        (\<lambda>env. JStr ''0x3333333333333333333333333333333333333333''),
      TOKEN_ADDRESSES =
        (\<lambda>network. [(''DAI'', ''0x4444444444444444444444444444444444444444'')]),
      Tokens_DAI = ''DAI'',
      getMainchainNetwork = (\<lambda>env. ''main''),
      getSidechainNetwork = (\<lambda>env. ''side''),
      validateINewOrderSchema = sample_validateINewOrderSchema,
      validateOrderHashArray = sample_validateOrderHashArray,
      validateISignedRelayerMakerOrder = sample_validateISignedRelayerMakerOrder,
      validateIFillDetailsMetadata = sample_validateIFillDetailsMetadata,
      validateIGetPendingBetsRequest = sample_validateRequest,
      validateIGetTradesRequest = sample_validateRequest,
      isAddress = sample_isAddress,
      isPositiveBigNumber = sample_isPositiveBigNumber,
      convertToContractOrder = (\<lambda>order. order),
      convertToDecimalOdds = JBig,
      convertToDisplayAmount = JBig,
      tryParseJson = sample_tryParseJson,
      getOrderHash = (\<lambda>order. field order ''signature''),
      getCancelOrderEIP712Payload = sample_typedData ''Details'',
      getFillOrderEIP712Payload = (\<lambda>details chainId hasher. sample_typedData ''Details'' details chainId),
      getDaiPermitEIP712Payload = (\<lambda>details chainId dai. sample_typedData ''Permit'' details chainId),
      isHexString = sample_isHexString,
      ethers_bigNumberify =
        (\<lambda>v. case v of
               JStr s \<Rightarrow> if list_all dec_digit s then Inr (int (undec s))
                         else Inl (ExternalError ''invalid BigNumber string value'')
             | JNum n \<Rightarrow> Inr n
             | _ \<Rightarrow> Inl (ExternalError ''invalid BigNumber value'')),
      formatUnits = (\<lambda>n d. dec_int n),
      solidityKeccak256 = (\<lambda>types vals. Inr (JStr ''0x5555'')),
      arrayify = (\<lambda>v. v),
      new_Wallet =
        (\<lambda>key. if sample_isHexString key then Inr (sample_wallet\<lparr>wallet_privateKey := key\<rparr>)
                else Inl (ExternalError ''invalid private key'')),
      signTypedData_v4 = (\<lambda>key payload. Inr (JStr ''0x6666'')),
      JSON_parse =
        (\<lambda>t. if snd (sample_tryParseJson t) then Inr (fst (sample_tryParseJson t))
              else Inl (ExternalError ''invalid json'')),
      Number_js = (\<lambda>v. v),
      toNumber = (\<lambda>v. Inr v)\<rparr>"

definition sample_metadata :: jsval where
  "sample_metadata =
     JObj [(''executorAddress'', JStr ''0x7777777777777777777777777777777777777777''),
           (''relayerAddress'', JStr ''0x8888888888888888888888888888888888888888''),
           (''fees'', JObj [(''relayerTakerFee'', JStr ''0''), (''relayerMakerFee'', JStr ''0'')]),
           (''makerOrderMinimum'', JStr ''100'')]"

text \<open>The sample world: a relayer that is up. It connects after 5 ms, pushes the
  metadata and the markets and acknowledges every request; its HTTP answers are 200
  with an empty result; the random source answers with the count of what has
  happened so far in the last byte.\<close>

definition sample_events :: "(nat \<times> event) list" where
  "sample_events =
     [(5, Emitted ''connect'' JUndefined),
      (0, Emitted ''connected'' JUndefined),
      (1, Acked ''METADATA'' (JObj [(''status'', JStr ''success'')])),
      (1, Emitted ''METADATA'' sample_metadata),
      (1, Acked ''ACTIVE_MARKETS'' (JObj [(''status'', JStr ''success'')])),
      (1, Emitted ''ACTIVE_MARKETS'' (JArr [])),
      (1, Acked ''NEW_ORDER'' (JObj [(''status'', JStr ''success'')])),
      (1, Acked ''CANCEL_ORDER'' (JObj [(''status'', JStr ''success'')]))]"

definition sample_response :: response where
  \<open>sample_response =
     \<lparr>status = 200, statusText = ''OK'',
      body_text = ''{"status":"success","data":{"markets":[],"bets":[],"trades":[]}}''\<rparr>\<close>

definition sample_world :: world where
  "sample_world =
     \<lparr>w_randomBytes = (\<lambda>t n. replicate (n - 1) 0 @ [of_nat (length t)]),
      w_fetch = (\<lambda>t url method body. Resolved sample_response),
      w_events = (\<lambda>t. sample_events),
      w_getAddress = (\<lambda>t. Resolved (JStr ''0x1111111111111111111111111111111111111111'')),
      w_getNetwork = (\<lambda>t. Resolved (JObj [(''chainId'', JNum 1)])),
      w_getOrderSignature = (\<lambda>t order. Resolved (JStr ''0x9999'')),
      w_signMessage = (\<lambda>t bytes. Resolved (JStr ''0xaaaa'')),
      w_send = (\<lambda>t method params. Resolved (JStr ''0xbbbb'')),
      w_nonces = (\<lambda>t dai holder. Resolved (JNum 0))\<rparr>"

text \<open>A world in which nothing ever answers: no event arrives and no call settles.\<close>

definition silent_world :: world where
  "silent_world =
     \<lparr>w_randomBytes = (\<lambda>t n. replicate n 0),
      w_fetch = (\<lambda>t url method body. Pending),
      w_events = (\<lambda>t. []),
      w_getAddress = (\<lambda>t. Pending),
      w_getNetwork = (\<lambda>t. Pending),
      w_getOrderSignature = (\<lambda>t order. Pending),
      w_signMessage = (\<lambda>t bytes. Pending),
      w_send = (\<lambda>t method params. Pending),
      w_nonces = (\<lambda>t dai holder. Pending)\<rparr>"

text \<open>Fresh clients, as the constructors make them.\<close>

definition sample_legacy :: legacy where
  "sample_legacy =
     \<lparr>l_signingWallet = sample_wallet, l_relayerUrl = ''https://relayer'',
      l_initialized = False, l_clientSocket = None, l_metadata = JUndefined\<rparr>"

definition sample_modern :: modern where
  "sample_modern =
     \<lparr>m_mainchainSigningWallet = WalletSigner sample_wallet,
      m_relayerUrl = ''https://relayer'',
      m_mainchainProvider = JsonRpcProvider (JStr ''https://mainchain''),
      m_sidechainProvider = JsonRpcProvider (JStr ''https://sidechain''),
      m_initialized = False,
      m_metadata = JUndefined,
      m_ably = None,
      m_environment = JStr ''production'',
      m_privateKey = JStr ''0x01'',
      m_mainchainChainId = JUndefined,
      m_mainchainNetwork = ''main'',
      m_sidechainNetwork = ''side'',
      m_baseTokenWrappers = []\<rparr>"

definition fresh :: "'c \<Rightarrow> 'c state" where
  "fresh c = \<lparr>self = c, trace = []\<rparr>"



text \<open>A world in which the socket connects and nothing else ever happens.\<close>

definition connect_only_world :: world where
  "connect_only_world =
     silent_world\<lparr>w_events := (\<lambda>t. [(5, Emitted ''connect'' JUndefined)])\<rparr>"

text \<open>A world in which the wallet signs and the random source works, but the relayer
  never answers: no socket event, no HTTP response.\<close>

definition unanswering_world :: world where
  "unanswering_world =
     sample_world\<lparr>w_fetch := (\<lambda>t url method body. Pending), w_events := (\<lambda>t. [])\<rparr>"

text \<open>Clients after a successful \<open>init\<close> against the sample relayer.\<close>

definition ready_legacy :: legacy where
  "ready_legacy =
     sample_legacy\<lparr>l_initialized := True, l_clientSocket := Some ''https://relayer'',
                    l_metadata := sample_metadata\<rparr>"

definition ready_modern :: modern where
  "ready_modern =
     sample_modern\<lparr>m_initialized := True, m_ably := Some ''https://relayer/user/token'',
                    m_metadata := sample_metadata, m_mainchainChainId := JNum 1,
                    m_baseTokenWrappers :=
                      [(''0x4444444444444444444444444444444444444444'', ''ChildERC20'')]\<rparr>"

text \<open>A signed maker order, as the relayer lists it.\<close>

definition sample_signed_order :: jsval where
  "sample_signed_order =
     JObj [(''marketHash'', JStr ''0xab''),
           (''maker'', JStr ''0x1111111111111111111111111111111111111111''),
           (''totalBetSize'', JStr ''500''),
           (''percentageOdds'', JStr ''50''),
           (''expiry'', JStr ''1700''),
           (''executor'', JStr ''0x7777777777777777777777777777777777777777''),
           (''baseToken'', JStr ''0x4444444444444444444444444444444444444444''),
           (''salt'', JStr ''7''),
           (''isMakerBettingOutcomeOne'', JBool True),
           (''signature'', JStr ''0xcd'')]"

definition sample_order :: jsval where
  "sample_order =
     JObj [(''marketHash'', JStr ''0xab''),
           (''totalBetSize'', JStr ''500''),
           (''percentageOdds'', JStr ''50''),
           (''expiry'', JNum 1700),
           (''baseToken'', JStr ''0x4444444444444444444444444444444444444444''),
           (''isMakerBettingOutcomeOne'', JBool True)]"

text \<open>The order record that the legacy \<open>newOrder\<close> makes of \<open>sample_order\<close> when
  the random source answers with zeros.\<close>

definition sample_legacy_apiMakerOrder :: jsval where
  "sample_legacy_apiMakerOrder =
     JObj [(''marketHash'', JStr ''0xab''),
           (''maker'', JStr ''0x1111111111111111111111111111111111111111''),
           (''totalBetSize'', JStr ''500''),
           (''percentageOdds'', JStr ''50''),
           (''expiry'', JStr ''1700''),
           (''relayerTakerFee'', JStr ''0''),
           (''relayerMakerFee'', JStr ''0''),
           (''executor'', JStr ''0x7777777777777777777777777777777777777777''),
           (''relayer'', JStr ''0x8888888888888888888888888888888888888888''),
           (''salt'', JStr ''0''),
           (''isMakerBettingOutcomeOne'', JBool True)]"

text \<open>A relayer whose every HTTP answer is 200 with the body \<open>null\<close>, and one whose
  every answer is 500 with a JSON error body.\<close>

definition null_world :: world where
  "null_world =
     sample_world\<lparr>w_fetch :=
       (\<lambda>t url method body. Resolved (sample_response\<lparr>body_text := ''null''\<rparr>))\<rparr>"

definition failing_response :: response where
  \<open>failing_response =
     \<lparr>status = 500, statusText = ''Internal Server Error'',
      body_text = ''{"status":"failure","reason":"down"}''\<rparr>\<close>

text \<open>
  The contract of section 4.5 of the specification, in its words: read the body as
  text and try to parse it; if that fails, fail with a "can't parse response" error
  carrying the raw text; if the status is not 200, fail with an API error carrying the
  parsed body and the status code; otherwise return what \<open>extract\<close> takes from the
  parsed body.
\<close>

definition http_contract ::
  "collab \<Rightarrow> string \<Rightarrow> (jsval \<Rightarrow> error + jsval) \<Rightarrow> response \<Rightarrow> jsval outcome" where
  "http_contract K errorMessage extract r =
     (if \<not> snd (tryParseJson K (body_text r)) then
        Rejected (APIError JUndefined (''Can't parse JSON '' @ body_text r))
      else if status r \<noteq> 200 then
        Rejected (APIError (fst (tryParseJson K (body_text r)))
          (errorMessage @ ''. Response code: '' @ dec_nat (status r)))
      else
        (case extract (fst (tryParseJson K (body_text r))) of
           Inl e \<Rightarrow> Rejected e
         | Inr v \<Rightarrow> Resolved v))"

text \<open>The three ways a method takes its result from the parsed body: the body's
  \<open>data\<close>, a field of \<open>data\<close>, or the whole body.\<close>

definition data_field :: "jsval \<Rightarrow> error + jsval" where
  "data_field result = get_prop result ''data''"

definition data_subfield :: "string \<Rightarrow> jsval \<Rightarrow> error + jsval" where
  "data_subfield k result =
     (case get_prop result ''data'' of Inl e \<Rightarrow> Inl e | Inr d \<Rightarrow> get_prop d k)"

definition whole_body :: "jsval \<Rightarrow> error + jsval" where
  "whole_body result = Inr result"

text \<open>The order record that the modern \<open>newOrder\<close> makes of \<open>sample_order\<close> when
  the random source answers with zeros.\<close>

definition sample_modern_apiMakerOrder :: jsval where
  "sample_modern_apiMakerOrder =
     JObj [(''marketHash'', JStr ''0xab''),
           (''maker'', JStr ''0x1111111111111111111111111111111111111111''),
           (''totalBetSize'', JStr ''500''),
           (''percentageOdds'', JStr ''50''),
           (''expiry'', JStr ''1700''),
           (''executor'', JStr ''0x7777777777777777777777777777777777777777''),
           (''baseToken'', JStr ''0x4444444444444444444444444444444444444444''),
           (''salt'', JStr ''0''),
           (''isMakerBettingOutcomeOne'', JBool True)]"

text \<open>The body of the sample relayer's answers, parsed.\<close>

definition sample_body :: jsval where
  "sample_body =
     JObj [(''status'', JStr ''success''),
           (''data'', JObj [(''markets'', JArr []), (''bets'', JArr []),
                            (''trades'', JArr [])])]"

text \<open>The \<open>fillDetails\<close> for the one sample order, the taker amounts \<open>1\<close> and
  \<open>2\<close>, no metadata and the fill salt 0.\<close>

definition sample_fillDetails :: jsval where
  "sample_fillDetails =
     JObj [(''action'', JStr ''N/A''), (''market'', JStr ''N/A''),
           (''betting'', JStr ''N/A''), (''stake'', JStr ''N/A''),
           (''odds'', JStr ''N/A''), (''returning'', JStr ''N/A''),
           (''fills'',
              JObj [(''orders'', JArr [sample_signed_order]),
                    (''makerSigs'', JArr [JStr ''0xcd'']),
                    (''takerAmounts'', JArr [JBig 1, JBig 2]),
                    (''fillSalt'', JBig 0)])]"

text \<open>
  \<open>quiet_until d handler evs\<close>: among the events \<open>evs\<close>, none that the callbacks
  react to arrives within the first \<open>d\<close> milliseconds.
\<close>

fun quiet_until :: "nat \<Rightarrow> (event \<Rightarrow> 'a action list) \<Rightarrow> (nat \<times> event) list \<Rightarrow> bool" where
  "quiet_until d handler [] = True"
| "quiet_until d handler (x # evs) =
     (d < fst x \<or> (handler (snd x) = [] \<and> quiet_until (d - fst x) handler evs))"

section \<open>Basic facts\<close>

lemmas async_defs = then_do_def resolve_def throw_def attempt_def perform_def await_def
  modify_def get_self_def

lemma then_do_resolve [simp]: "then_do (resolve a) f = f a"
  by (rule ext) (simp add: then_do_def resolve_def)

lemma then_do_throw [simp]: "then_do (throw e) f = throw e"
  by (rule ext) (simp add: then_do_def throw_def)

lemma attempt_simps [simp]: "attempt (Inl e) = throw e" "attempt (Inr a) = resolve a"
  by (simp_all add: attempt_def)

lemma spread_Nil [simp]: "spread a [] = a"
  by (simp add: spread_def)

lemma then_do_assoc: "then_do (then_do m f) g = then_do m (\<lambda>x. then_do (f x) g)"
  by (rule ext) (simp add: then_do_def split: prod.splits outcome.splits)

lemma digit_chars:
  "digit_char 0 = CHR ''0''" "digit_char 1 = CHR ''1''" "digit_char 2 = CHR ''2''"
  "digit_char 3 = CHR ''3''" "digit_char 4 = CHR ''4''" "digit_char 5 = CHR ''5''"
  "digit_char 6 = CHR ''6''" "digit_char 7 = CHR ''7''" "digit_char 8 = CHR ''8''"
  "digit_char 9 = CHR ''9''" "digit_char (Suc 0) = CHR ''1''"
  by code_simp+

lemma foldl_zeros: "foldl (\<lambda>acc b. acc * 256 + unat b) 0 (replicate n (0::8 word)) = 0"
  by (induction n) simp_all

lemma be_nat_zeros: "be_nat (replicate n 0 @ [b]) = unat b"
  by (simp add: be_nat_def foldl_zeros)

lemmas sample_defs =
  sample_collab_def sample_world_def unanswering_world_def silent_world_def
  connect_only_world_def sample_legacy_def sample_modern_def ready_legacy_def
  ready_modern_def sample_wallet_def sample_metadata_def sample_order_def
  sample_signed_order_def
  sample_response_def failing_response_def null_world_def sample_events_def fresh_def
  sample_validateINewOrderSchema_def sample_validateOrderHashArray_def
  sample_validateISignedRelayerMakerOrder_def sample_validateIFillDetailsMetadata_def
  sample_validateRequest_def sample_isHexString_def sample_isAddress_def
  sample_isPositiveBigNumber_def sample_tryParseJson_def sample_typedData_def
  hex_digit_def dec_digit_def undec_def

lemmas run_simps =
  then_do_assoc randomBytes_def fetch_def getOrderSignature_def
  resolve_def throw_def modify_def field_def bigNumberify_def toString_def
  dec_int_def dec_nat.simps digit_chars be_nat_zeros Let_def

lemma put_append_fresh: "k \<notin> fst ` set a \<Longrightarrow> put k v a = a @ [(k, v)]"
  by (induction a) auto

section \<open>Cancelling orders with the modern client\<close>








section \<open>Running a chain of awaits\<close>

lemma await_Promise_eq: "await_Promise W ex h s = (new_Promise ex h (w_events W (trace s)), s)"
  by (simp add: await_Promise_def)

lemma then_do_get_self [simp]: "then_do get_self f s = f (self s) s"
  by (simp add: then_do_def get_self_def)

lemma then_do_modify [simp]: "then_do (modify g) f s = f () (s\<lparr>self := g (self s)\<rparr>)"
  by (simp add: then_do_def modify_def)

lemma then_do_perform [simp]: "then_do (perform e) f s = f () (s\<lparr>trace := trace s @ [e]\<rparr>)"
  by (simp add: then_do_def perform_def)

lemma then_do_await:
  "then_do (await e r) f s =
     (case r (trace s) of
        Resolved a \<Rightarrow> f a (s\<lparr>trace := trace s @ [e]\<rparr>)
      | Rejected x \<Rightarrow> (Rejected x, s\<lparr>trace := trace s @ [e]\<rparr>)
      | Pending \<Rightarrow> (Pending, s\<lparr>trace := trace s @ [e]\<rparr>))"
  by (simp add: then_do_def await_def split: outcome.splits)

lemma then_do_await_Promise:
  "then_do (await_Promise W ex h) f s =
     (case new_Promise ex h (w_events W (trace s)) of
        Resolved a \<Rightarrow> f a s
      | Rejected x \<Rightarrow> (Rejected x, s)
      | Pending \<Rightarrow> (Pending, s))"
  by (simp add: then_do_def await_Promise_def split: outcome.splits)

lemma then_do_ResolvedE:
  assumes "then_do m f s = (Resolved b, s')"
  obtains a s1 where "m s = (Resolved a, s1)" "f a s1 = (Resolved b, s')"
  using assms by (auto simp: then_do_def split: prod.splits outcome.splits)

section \<open>Cancelling orders with the legacy client\<close>

text \<open>
  Claim C6. For a list of order hashes that \<open>validateOrderHashArray\<close> accepts, the
  legacy \<open>cancelOrder\<close> computes one \<open>solidityKeccak256\<close> hash over the order hashes,
  each typed \<open>bytes32\<close>, followed by the boolean \<open>true\<close> typed \<open>bool\<close>, and its first
  effect is to have the wallet sign that hash as a plain message (\<open>signMessage\<close>, not
  typed data). When the wallet answers and the socket is open, the next and last
  effect is the emission of the hash list with that signature.
\<close>

theorem legacy_cancelOrder_signs_hash:
  assumes valid: "validateOrderHashArray K (JArr hashes) = ''OK''"
    and hash: "solidityKeccak256 K (map (\<lambda>h. ''bytes32'') hashes @ [''bool''])
                 (hashes @ [JBool True]) = Inr signingPayload"
  shows "(\<exists>rest. trace (snd (legacy_cancelOrder K W (JArr hashes) s))
           = trace s @ SignMessage (arrayify K signingPayload) # rest)
       \<and> (w_signMessage W (trace s) (arrayify K signingPayload) = Resolved cancelSignature
            \<and> l_clientSocket (self s) = Some u
          \<longrightarrow> trace (snd (legacy_cancelOrder K W (JArr hashes) s))
           = trace s @
             [SignMessage (arrayify K signingPayload),
              SocketEmit (WEBSOCKET_MESSAGE_KEYS K ''CANCEL_ORDER'')
                (JObj [(''orderHashes'', JArr hashes), (''cancelSignature'', cancelSignature)])])"
  using valid hash
  by (auto simp: legacy_cancelOrder_def legacy_clientSocket_def async_defs await_Promise_eq
      split: outcome.splits option.splits)

theorem legacy_cancelOrder_signs_hash_witness:
  "validateOrderHashArray sample_collab (JArr [JStr ''0xaa'']) = ''OK''
   \<and> solidityKeccak256 sample_collab (map (\<lambda>h. ''bytes32'') [JStr ''0xaa''] @ [''bool''])
        ([JStr ''0xaa''] @ [JBool True]) = Inr (JStr ''0x5555'')
   \<and> w_signMessage sample_world [] (arrayify sample_collab (JStr ''0x5555''))
        = Resolved (JStr ''0xaaaa'')
   \<and> trace (snd (legacy_cancelOrder sample_collab sample_world (JArr [JStr ''0xaa''])
         (fresh (sample_legacy\<lparr>l_clientSocket := Some ''https://relayer''\<rparr>))))
       = [SignMessage (JStr ''0x5555''),
          SocketEmit ''CANCEL_ORDER''
            (JObj [(''orderHashes'', JArr [JStr ''0xaa'']), (''cancelSignature'', JStr ''0xaaaa'')])]"
proof -
  have a: "validateOrderHashArray sample_collab (JArr [JStr ''0xaa'']) = ''OK''"
    by (simp add: sample_collab_def sample_validateOrderHashArray_def sample_isHexString_def
        hex_digit_def)
  have b: "solidityKeccak256 sample_collab (map (\<lambda>h. ''bytes32'') [JStr ''0xaa''] @ [''bool''])
        ([JStr ''0xaa''] @ [JBool True]) = Inr (JStr ''0x5555'')"
    by (simp add: sample_collab_def)
  have c: "w_signMessage sample_world [] (arrayify sample_collab (JStr ''0x5555''))
        = Resolved (JStr ''0xaaaa'')"
    by (simp add: sample_world_def)
  show ?thesis
    using a b c legacy_cancelOrder_signs_hash [OF a b, of sample_world
        "fresh (sample_legacy\<lparr>l_clientSocket := Some ''https://relayer''\<rparr>)"
        "JStr ''0xaaaa''" "''https://relayer''"]
    by (simp add: fresh_def sample_collab_def)
qed

section \<open>Initialisation\<close>

lemma legacy_getMetadata_connected:
  "l_clientSocket (self s) = Some u \<Longrightarrow>
   legacy_getMetadata K W s =
     (new_Promise
        [SetTimeout (RELAYER_TIMEOUT K)
           (APITimeoutError ''Timeout getting metadata from the SportX API'')]
        (legacy_getMetadata_handler K)
        (w_events W (trace s @ [SocketOn (WEBSOCKET_MESSAGE_KEYS K ''METADATA''),
                                SocketEmit (WEBSOCKET_MESSAGE_KEYS K ''METADATA'') JNull])),
      s\<lparr>trace := trace s @ [SocketOn (WEBSOCKET_MESSAGE_KEYS K ''METADATA''),
                            SocketEmit (WEBSOCKET_MESSAGE_KEYS K ''METADATA'') JNull]\<rparr>)"
  by (simp add: legacy_getMetadata_def legacy_clientSocket_def async_defs await_Promise_eq)

lemma legacy_init_initialized:
  "l_initialized (self s) \<Longrightarrow> legacy_init K W s = (Rejected (Error ''Already initialized''), s)"
  by (simp add: legacy_init_def async_defs)

text \<open>What \<open>init\<close> does on a client that is not yet initialised, by the outcome of its
  two promises.\<close>

lemma legacy_init_fresh:
  assumes "\<not> l_initialized (self s)"
  shows "legacy_init K W s =
    (let c1 = (self s)\<lparr>l_clientSocket := Some (l_relayerUrl (self s))\<rparr>;
         t1 = trace s @ [SocketOpen (l_relayerUrl (self s)), SocketOn ''connect''];
         t2 = t1 @ [SocketOn (WEBSOCKET_MESSAGE_KEYS K ''METADATA''),
                    SocketEmit (WEBSOCKET_MESSAGE_KEYS K ''METADATA'') JNull]
     in case new_Promise [] (legacy_init_handler K) (w_events W t1) of
          Rejected e \<Rightarrow> (Rejected e, s\<lparr>self := c1, trace := t1\<rparr>)
        | Pending \<Rightarrow> (Pending, s\<lparr>self := c1, trace := t1\<rparr>)
        | Resolved x \<Rightarrow>
            (case new_Promise
                    [SetTimeout (RELAYER_TIMEOUT K)
                       (APITimeoutError ''Timeout getting metadata from the SportX API'')]
                    (legacy_getMetadata_handler K) (w_events W t2) of
               Resolved metadata \<Rightarrow>
                 (Resolved (),
                  s\<lparr>self := c1\<lparr>l_initialized := True, l_metadata := metadata\<rparr>, trace := t2\<rparr>)
             | Rejected e \<Rightarrow>
                 (Rejected e, s\<lparr>self := c1\<lparr>l_initialized := True\<rparr>, trace := t2\<rparr>)
             | Pending \<Rightarrow>
                 (Pending, s\<lparr>self := c1\<lparr>l_initialized := True\<rparr>, trace := t2\<rparr>)))"
  using assms
  by (simp add: legacy_init_def legacy_getMetadata_connected then_do_def get_self_def modify_def
      perform_def throw_def await_Promise_eq Let_def split: outcome.splits)

lemma modern_init_initialized:
  "m_initialized (self s) \<Longrightarrow> modern_init K W s = (Rejected (Error ''Already initialized''), s)"
  by (simp add: modern_init_def throw_def)

lemma modern_init_success:
  assumes "modern_init K W s = (Resolved (), s')"
  shows "m_initialized (self s')"
proof -
  from assms have ni: "\<not> m_initialized (self s)"
    by (auto simp: modern_init_def throw_def split: if_splits)
  from assms ni show ?thesis
    apply (simp add: modern_init_def then_do_await_Promise split: outcome.splits)
    apply (elim then_do_ResolvedE)
    apply (auto simp: modify_def)
    done
qed

lemma legacy_init_success:
  assumes "legacy_init K W s = (Resolved (), s')"
  shows "l_initialized (self s')"
proof -
  from assms have ni: "\<not> l_initialized (self s)"
    by (auto simp: legacy_init_def throw_def split: if_splits)
  from assms show ?thesis
    unfolding legacy_init_fresh [OF ni]
    by (auto simp: Let_def split: outcome.splits)
qed

text \<open>
  Claim C8. In both clients, once a call of \<open>init\<close> has resolved, every further call
  on that instance, whatever the world then does, rejects with the error
  \<open>Already initialized\<close> and leaves the instance as it was: its fields (connection,
  cached metadata) and the trace of its effects are unchanged.
\<close>

theorem init_twice:
  "(legacy_init K W s = (Resolved (), s')
      \<longrightarrow> legacy_init K W' s' = (Rejected (Error ''Already initialized''), s'))
   \<and> (modern_init K W t = (Resolved (), t')
      \<longrightarrow> modern_init K W' t' = (Rejected (Error ''Already initialized''), t'))"
  using legacy_init_success legacy_init_initialized modern_init_success modern_init_initialized
  by blast

text \<open>Running the two \<open>init\<close>s against the sample relayer.\<close>

lemmas promise_defs = new_Promise_def deliver_def elapse_def run_out_def

lemma sample_legacy_init:
  "fst (legacy_init sample_collab sample_world (fresh sample_legacy)) = Resolved ()"
  by (simp add: legacy_init_fresh fresh_def sample_legacy_def sample_world_def sample_collab_def
      sample_events_def promise_defs legacy_init_handler_def legacy_getMetadata_handler_def
      Let_def)

lemma sample_modern_init:
  "fst (modern_init sample_collab sample_world (fresh sample_modern)) = Resolved ()"
  by (simp add: modern_init_def modern_getMetadata_def modern_request_def fetch_def
      tryParseResponse_def then_do_assoc then_do_await then_do_await_Promise modify_def
      resolve_def fresh_def sample_modern_def sample_world_def sample_collab_def sample_response_def
      sample_tryParseJson_def
      sample_events_def promise_defs modern_init_handler_def Let_def)

theorem init_twice_witness:
  "fst (legacy_init sample_collab sample_world (fresh sample_legacy)) = Resolved ()
   \<and> legacy_init sample_collab silent_world
        (snd (legacy_init sample_collab sample_world (fresh sample_legacy)))
      = (Rejected (Error ''Already initialized''),
         snd (legacy_init sample_collab sample_world (fresh sample_legacy)))
   \<and> fst (modern_init sample_collab sample_world (fresh sample_modern)) = Resolved ()
   \<and> modern_init sample_collab silent_world
        (snd (modern_init sample_collab sample_world (fresh sample_modern)))
      = (Rejected (Error ''Already initialized''),
         snd (modern_init sample_collab sample_world (fresh sample_modern)))"
proof -
  have l: "legacy_init sample_collab sample_world (fresh sample_legacy)
           = (Resolved (), snd (legacy_init sample_collab sample_world (fresh sample_legacy)))"
    using sample_legacy_init by (simp add: prod_eq_iff)
  have m: "modern_init sample_collab sample_world (fresh sample_modern)
           = (Resolved (), snd (modern_init sample_collab sample_world (fresh sample_modern)))"
    using sample_modern_init by (simp add: prod_eq_iff)
  show ?thesis
    using l m sample_legacy_init sample_modern_init
      init_twice [of sample_collab sample_world "fresh sample_legacy"
        "snd (legacy_init sample_collab sample_world (fresh sample_legacy))" silent_world
        "fresh sample_modern"
        "snd (modern_init sample_collab sample_world (fresh sample_modern))"]
    by simp
qed

lemma legacy_SportX_fresh:
  "legacy_SportX K env privateKey = Inr c \<Longrightarrow>
     \<not> l_initialized c \<and> l_metadata c = JUndefined \<and> l_clientSocket c = None"
  by (auto simp: legacy_SportX_def split: sum.splits if_splits)

text \<open>
  Claim C9. The legacy \<open>init\<close> is not atomic. On an instance fresh from the
  constructor, when the socket connects and the metadata promise that follows rejects,
  \<open>init\<close> rejects with that error, the instance is left marked initialised with no
  metadata cached, and every later \<open>init\<close> on it rejects with
  \<open>Already initialized\<close>.
\<close>

theorem legacy_init_not_atomic:
  assumes made: "legacy_SportX K env privateKey = Inr (self s)"
    and connected:
      "new_Promise [] (legacy_init_handler K)
         (w_events W (trace s @ [SocketOpen (l_relayerUrl (self s)), SocketOn ''connect'']))
       = Resolved ()"
    and failed:
      "new_Promise
         [SetTimeout (RELAYER_TIMEOUT K)
            (APITimeoutError ''Timeout getting metadata from the SportX API'')]
         (legacy_getMetadata_handler K)
         (w_events W (trace s @ [SocketOpen (l_relayerUrl (self s)), SocketOn ''connect'',
            SocketOn (WEBSOCKET_MESSAGE_KEYS K ''METADATA''),
            SocketEmit (WEBSOCKET_MESSAGE_KEYS K ''METADATA'') JNull]))
       = Rejected e"
  shows "\<exists>s'. legacy_init K W s = (Rejected e, s')
           \<and> l_initialized (self s') \<and> l_metadata (self s') = JUndefined
           \<and> (\<forall>W'. legacy_init K W' s' = (Rejected (Error ''Already initialized''), s'))"
proof -
  from legacy_SportX_fresh [OF made]
  have ni: "\<not> l_initialized (self s)" and md: "l_metadata (self s) = JUndefined"
    by simp_all
  show ?thesis
    using connected failed md
    by (simp add: legacy_init_fresh [OF ni] legacy_init_initialized Let_def)
qed

theorem legacy_init_not_atomic_witness:
  "legacy_SportX sample_collab (JStr ''production'') (JStr ''0x01'') = Inr sample_legacy
   \<and> (\<exists>s'. legacy_init sample_collab connect_only_world (fresh sample_legacy)
              = (Rejected (APITimeoutError ''Timeout getting metadata from the SportX API''), s')
           \<and> l_initialized (self s') \<and> l_metadata (self s') = JUndefined
           \<and> (\<forall>W'. legacy_init sample_collab W' s'
                      = (Rejected (Error ''Already initialized''), s')))"
proof -
  have a: "legacy_SportX sample_collab (JStr ''production'') (JStr ''0x01'')
           = Inr (self (fresh sample_legacy))"
    by (simp add: legacy_SportX_def sample_collab_def sample_legacy_def sample_wallet_def
        sample_isHexString_def hex_digit_def fresh_def)
  have b: "new_Promise [] (legacy_init_handler sample_collab)
         (w_events connect_only_world (trace (fresh sample_legacy)
            @ [SocketOpen (l_relayerUrl (self (fresh sample_legacy))), SocketOn ''connect'']))
       = Resolved ()"
    by (simp add: connect_only_world_def silent_world_def promise_defs legacy_init_handler_def)
  have c: "new_Promise
         [SetTimeout (RELAYER_TIMEOUT sample_collab)
            (APITimeoutError ''Timeout getting metadata from the SportX API'')]
         (legacy_getMetadata_handler sample_collab)
         (w_events connect_only_world (trace (fresh sample_legacy)
            @ [SocketOpen (l_relayerUrl (self (fresh sample_legacy))), SocketOn ''connect'',
            SocketOn (WEBSOCKET_MESSAGE_KEYS sample_collab ''METADATA''),
            SocketEmit (WEBSOCKET_MESSAGE_KEYS sample_collab ''METADATA'') JNull]))
       = Rejected (APITimeoutError ''Timeout getting metadata from the SportX API'')"
    by (simp add: connect_only_world_def silent_world_def promise_defs
        legacy_getMetadata_handler_def sample_collab_def)
  show ?thesis
    using a legacy_init_not_atomic [OF a b c] by (simp add: fresh_def)
qed

section \<open>Timeouts\<close>

text \<open>Once settled, a promise stays as it is.\<close>

lemma act_settled: "settled p \<noteq> Pending \<Longrightarrow> settled (act p a) = settled p"
  by (cases a) auto

lemma foldl_act_settled: "settled p \<noteq> Pending \<Longrightarrow> settled (foldl act p as) = settled p"
  by (induction as arbitrary: p) (auto simp: act_settled)

lemma elapse_settled: "settled p \<noteq> Pending \<Longrightarrow> settled (elapse t p) = settled p"
  by (auto simp: elapse_def Let_def split: option.splits)

lemma deliver_settled: "settled p \<noteq> Pending \<Longrightarrow> settled (deliver h p x) = settled p"
  by (simp add: deliver_def foldl_act_settled elapse_settled)

lemma foldl_deliver_settled:
  "settled p \<noteq> Pending \<Longrightarrow> settled (foldl (deliver h) p evs) = settled p"
  by (induction evs arbitrary: p) (auto simp: deliver_settled)

lemma run_out_settled: "settled p \<noteq> Pending \<Longrightarrow> run_out p = settled p"
  by (auto simp: run_out_def split: option.splits)

lemma settled_run: "settled p \<noteq> Pending \<Longrightarrow> run_out (foldl (deliver h) p evs) = settled p"
  by (simp add: run_out_settled foldl_deliver_settled)

text \<open>A pending promise with one timer armed rejects with the timer's error when
  nothing that its callbacks react to arrives before the deadline.\<close>

lemma armed_times_out:
  assumes "settled p = Pending" "timers p = [(D, e)]" "quiet_until (D - clock p) h evs"
  shows "run_out (foldl (deliver h) p evs) = Rejected e"
  using assms
proof (induction evs arbitrary: p)
  case Nil
  then show ?case by (simp add: run_out_def)
next
  case (Cons x evs)
  show ?case
  proof (cases "D \<le> clock p + fst x")
    case True
    with Cons.prems have "settled (deliver h p x) = Rejected e"
      by (simp add: deliver_def elapse_def foldl_act_settled)
    then show ?thesis by (simp add: settled_run)
  next
    case False
    with Cons.prems have ign: "h (snd x) = []" and q: "quiet_until (D - clock p - fst x) h evs"
      by auto
    from False Cons.prems ign have d: "deliver h p x = p\<lparr>clock := clock p + fst x\<rparr>"
      by (simp add: deliver_def elapse_def)
    show ?thesis
      using Cons.IH [of "p\<lparr>clock := clock p + fst x\<rparr>"] Cons.prems q
      by (simp add: d)
  qed
qed

lemma new_Promise_times_out:
  "quiet_until d h evs \<Longrightarrow> new_Promise [SetTimeout d e] h evs = Rejected e"
  using armed_times_out [of "\<lparr>settled = Pending, clock = 0, timers = [(d, e)]\<rparr>" d e h evs]
  by (simp add: new_Promise_def)

lemma then_do_legacy_clientSocket:
  "then_do legacy_clientSocket f s =
     (case l_clientSocket (self s) of
        None \<Rightarrow> (Rejected (TypeError ''Cannot read property of undefined''), s)
      | Some u \<Rightarrow> f () s)"
  by (simp add: legacy_clientSocket_def then_do_assoc throw_def split: option.splits)

lemma legacy_getMetadata_times_out:
  assumes "l_clientSocket (self s) = Some u"
    and "quiet_until (RELAYER_TIMEOUT K) (legacy_getMetadata_handler K)
           (w_events W (trace s @ [SocketOn (WEBSOCKET_MESSAGE_KEYS K ''METADATA''),
                                   SocketEmit (WEBSOCKET_MESSAGE_KEYS K ''METADATA'') JNull]))"
  shows "fst (legacy_getMetadata K W s)
         = Rejected (APITimeoutError ''Timeout getting metadata from the SportX API'')"
  using assms by (simp add: legacy_getMetadata_connected new_Promise_times_out)

lemma legacy_newOrder_times_out:
  assumes "legacy_apiMakerOrder K W order s = (Resolved apiMakerOrder, s1)"
    and "w_getOrderSignature W (trace s1) apiMakerOrder = Resolved signature"
    and "l_clientSocket (self s1) = Some u"
    and "quiet_until (RELAYER_TIMEOUT K) (legacy_newOrder_handler K)
           (w_events W (trace s1 @ [OrderSignature apiMakerOrder,
              SocketEmit (WEBSOCKET_MESSAGE_KEYS K ''NEW_ORDER'')
                (JObj (spread (own_props apiMakerOrder) [(''signature'', signature)]))]))"
  shows "fst (legacy_newOrder K W order s)
         = Rejected (APITimeoutError ''Timeout getting submitting order to the SportX API'')"
  using assms
  by (simp add: legacy_newOrder_def getOrderSignature_def then_do_legacy_clientSocket
      then_do_def [of "legacy_apiMakerOrder K W order"] then_do_await
      await_Promise_eq new_Promise_times_out)

lemma legacy_cancelOrder_times_out:
  assumes "validateOrderHashArray K (JArr hashes) = ''OK''"
    and "solidityKeccak256 K (map (\<lambda>h. ''bytes32'') hashes @ [''bool''])
           (hashes @ [JBool True]) = Inr signingPayload"
    and "w_signMessage W (trace s) (arrayify K signingPayload) = Resolved cancelSignature"
    and "l_clientSocket (self s) = Some u"
    and "quiet_until (RELAYER_TIMEOUT K) (legacy_cancelOrder_handler K)
           (w_events W (trace s @ [SignMessage (arrayify K signingPayload),
              SocketEmit (WEBSOCKET_MESSAGE_KEYS K ''CANCEL_ORDER'')
                (JObj [(''orderHashes'', JArr hashes),
                       (''cancelSignature'', cancelSignature)])]))"
  shows "fst (legacy_cancelOrder K W (JArr hashes) s)
         = Rejected (APITimeoutError ''Timeout getting submitting order to the SportX API'')"
  using assms
  by (simp add: legacy_cancelOrder_def then_do_legacy_clientSocket then_do_await
      await_Promise_eq new_Promise_times_out)

lemma modern_init_times_out:
  assumes "\<not> m_initialized (self s)"
    and "quiet_until (RELAYER_TIMEOUT K) modern_init_handler
           (w_events W (trace s @ [AblyOpen (m_relayerUrl (self s) @ ''/user/token''),
                                   AblyOn ''connected'']))"
  shows "fst (modern_init K W s) = Rejected RejectedUndefined"
  using assms
  by (simp add: modern_init_def then_do_await_Promise new_Promise_times_out)

lemma modern_request_pending:
  "w_fetch W (trace s) (m_relayerUrl (self s) @ RELAYER_HTTP_ENDPOINTS K endpoint) verb body
     = Pending
   \<Longrightarrow> fst (modern_request K W endpoint verb body errorMessage s) = Pending"
  by (simp add: modern_request_def fetch_def then_do_await)

lemma legacy_fetch_data_pending:
  "w_fetch W (trace s) url None None = Pending \<Longrightarrow> fst (legacy_fetch_data K W url s) = Pending"
  by (simp add: legacy_fetch_data_def fetch_def then_do_await)

text \<open>
  Claim C2, as amended. The legacy \<open>getMetadata\<close>, \<open>newOrder\<close> and \<open>cancelOrder\<close>
  arm a timer of \<open>RELAYER_TIMEOUT\<close> when they issue their socket request, whatever the
  answer: when nothing their callbacks react to arrives within the timeout, the promise
  rejects with an \<open>APITimeoutError\<close>. The modern \<open>init\<close> arms its timer the same way
  and rejects when no \<open>connected\<close> event arrives in time. The HTTP requests of both
  clients arm no timer: while \<open>fetch\<close> does not settle, the promise stays pending.
\<close>

theorem unconditional_timeouts:
  "(l_clientSocket (self s) = Some u
      \<and> quiet_until (RELAYER_TIMEOUT K) (legacy_getMetadata_handler K)
           (w_events W (trace s @ [SocketOn (WEBSOCKET_MESSAGE_KEYS K ''METADATA''),
                                   SocketEmit (WEBSOCKET_MESSAGE_KEYS K ''METADATA'') JNull]))
    \<longrightarrow> fst (legacy_getMetadata K W s)
         = Rejected (APITimeoutError ''Timeout getting metadata from the SportX API''))
   \<and> (legacy_apiMakerOrder K W order s = (Resolved apiMakerOrder, s1)
      \<and> w_getOrderSignature W (trace s1) apiMakerOrder = Resolved signature
      \<and> l_clientSocket (self s1) = Some u
      \<and> quiet_until (RELAYER_TIMEOUT K) (legacy_newOrder_handler K)
           (w_events W (trace s1 @ [OrderSignature apiMakerOrder,
              SocketEmit (WEBSOCKET_MESSAGE_KEYS K ''NEW_ORDER'')
                (JObj (spread (own_props apiMakerOrder) [(''signature'', signature)]))]))
    \<longrightarrow> fst (legacy_newOrder K W order s)
         = Rejected (APITimeoutError ''Timeout getting submitting order to the SportX API''))
   \<and> (validateOrderHashArray K (JArr hashes) = ''OK''
      \<and> solidityKeccak256 K (map (\<lambda>h. ''bytes32'') hashes @ [''bool''])
           (hashes @ [JBool True]) = Inr signingPayload
      \<and> w_signMessage W (trace s) (arrayify K signingPayload) = Resolved cancelSignature
      \<and> l_clientSocket (self s) = Some u
      \<and> quiet_until (RELAYER_TIMEOUT K) (legacy_cancelOrder_handler K)
           (w_events W (trace s @ [SignMessage (arrayify K signingPayload),
              SocketEmit (WEBSOCKET_MESSAGE_KEYS K ''CANCEL_ORDER'')
                (JObj [(''orderHashes'', JArr hashes),
                       (''cancelSignature'', cancelSignature)])]))
    \<longrightarrow> fst (legacy_cancelOrder K W (JArr hashes) s)
         = Rejected (APITimeoutError ''Timeout getting submitting order to the SportX API''))
   \<and> (\<not> m_initialized (self t)
      \<and> quiet_until (RELAYER_TIMEOUT K) modern_init_handler
           (w_events W (trace t @ [AblyOpen (m_relayerUrl (self t) @ ''/user/token''),
                                   AblyOn ''connected'']))
    \<longrightarrow> (\<exists>e. fst (modern_init K W t) = Rejected e))
   \<and> (w_fetch W (trace t) (m_relayerUrl (self t) @ RELAYER_HTTP_ENDPOINTS K endpoint)
         verb body = Pending
    \<longrightarrow> fst (modern_request K W endpoint verb body errorMessage t) = Pending)
   \<and> (w_fetch W (trace s) url None None = Pending
    \<longrightarrow> fst (legacy_fetch_data K W url s) = Pending)"
  using legacy_getMetadata_times_out [of s u K W]
    legacy_newOrder_times_out [of K W order s apiMakerOrder s1 signature u]
    legacy_cancelOrder_times_out [of K hashes signingPayload W s cancelSignature u]
    modern_init_times_out [of t K W]
    modern_request_pending [of W t K endpoint verb body errorMessage]
    legacy_fetch_data_pending [of W s url K]
  by blast

lemma sample_legacy_apiMakerOrder_run:
  "legacy_apiMakerOrder sample_collab unanswering_world sample_order (fresh ready_legacy)
   = (Resolved sample_legacy_apiMakerOrder, (fresh ready_legacy)\<lparr>trace := [RandomBytes 32]\<rparr>)"
  by (simp add: legacy_apiMakerOrder_def sample_defs run_simps then_do_await
      sample_legacy_apiMakerOrder_def)

theorem unconditional_timeouts_witness:
  "fst (legacy_getMetadata sample_collab unanswering_world (fresh ready_legacy))
     = Rejected (APITimeoutError ''Timeout getting metadata from the SportX API'')
   \<and> fst (legacy_newOrder sample_collab unanswering_world sample_order (fresh ready_legacy))
     = Rejected (APITimeoutError ''Timeout getting submitting order to the SportX API'')
   \<and> fst (legacy_cancelOrder sample_collab unanswering_world (JArr [JStr ''0xaa''])
          (fresh ready_legacy))
     = Rejected (APITimeoutError ''Timeout getting submitting order to the SportX API'')
   \<and> (\<exists>e. fst (modern_init sample_collab unanswering_world (fresh sample_modern)) = Rejected e)
   \<and> fst (modern_request sample_collab unanswering_world ''METADATA'' None None
          ''Can't fetch metadata'' (fresh sample_modern)) = Pending
   \<and> fst (legacy_fetch_data sample_collab unanswering_world ''https://relayer/LEAGUES''
          (fresh ready_legacy)) = Pending"
proof -
  have q: "quiet_until d h (w_events unanswering_world t) = True" for d t
    and h :: "event \<Rightarrow> 'x action list"
    by (simp add: sample_defs)
  have a: "l_clientSocket (self (fresh ready_legacy)) = Some ''https://relayer''"
    by (simp add: sample_defs)
  have a1: "l_clientSocket (self ((fresh ready_legacy)\<lparr>trace := [RandomBytes 32]\<rparr>))
            = Some ''https://relayer''"
    by (simp add: sample_defs)
  have b: "w_getOrderSignature unanswering_world
             (trace ((fresh ready_legacy)\<lparr>trace := [RandomBytes 32]\<rparr>))
             sample_legacy_apiMakerOrder = Resolved (JStr ''0x9999'')"
    by (simp add: sample_defs)
  have c: "validateOrderHashArray sample_collab (JArr [JStr ''0xaa'']) = ''OK''"
    by (simp add: sample_defs)
  have d: "solidityKeccak256 sample_collab (map (\<lambda>h. ''bytes32'') [JStr ''0xaa''] @ [''bool''])
             ([JStr ''0xaa''] @ [JBool True]) = Inr (JStr ''0x5555'')"
    by (simp add: sample_defs)
  have e: "w_signMessage unanswering_world (trace (fresh ready_legacy))
             (arrayify sample_collab (JStr ''0x5555'')) = Resolved (JStr ''0xaaaa'')"
    by (simp add: sample_defs)
  have f: "\<not> m_initialized (self (fresh sample_modern))"
    by (simp add: sample_defs)
  have g: "(w_fetch unanswering_world t url verb body = Pending) = True"
    for t url verb body
    by (simp add: sample_defs)
  note th = unconditional_timeouts [of "fresh ready_legacy" "''https://relayer''" sample_collab
        unanswering_world sample_order sample_legacy_apiMakerOrder
        "(fresh ready_legacy)\<lparr>trace := [RandomBytes 32]\<rparr>" "JStr ''0x9999''"
        "[JStr ''0xaa'']" "JStr ''0x5555''" "JStr ''0xaaaa''" "fresh sample_modern"
        "''METADATA''" None None "''Can't fetch metadata''" "''https://relayer/LEAGUES''"]
  show ?thesis
    using th
    by (simp only: q a a1 b c d e f g sample_legacy_apiMakerOrder_run simp_thms) 
qed

text \<open>As first stated, C2 promised a timeout for every network-bound operation of
  either client. Against a relayer that never answers, the modern \<open>getMetadata\<close> and
  the legacy \<open>getLeagues\<close> never settle.\<close>

theorem fetch_without_timeout_counterexample:
  "fst (modern_getMetadata sample_collab unanswering_world (fresh ready_modern)) = Pending
   \<and> fst (legacy_getLeagues sample_collab unanswering_world (fresh ready_legacy)) = Pending"
  by (simp add: modern_getMetadata_def legacy_getLeagues_def modern_request_def
      legacy_fetch_data_def then_do_assoc fetch_def then_do_await
      unanswering_world_def sample_world_def)

text \<open>The two places where the timer is armed inside a callback: with no event at all,
  nothing ever settles the promise.\<close>

lemma legacy_init_never_connected:
  "fst (legacy_init sample_collab unanswering_world (fresh sample_legacy)) = Pending"
  by (simp add: legacy_init_fresh sample_defs promise_defs)

lemma legacy_getActiveMarkets_never_acknowledged:
  "fst (legacy_getActiveMarkets sample_collab unanswering_world (fresh ready_legacy)) = Pending"
  by (simp add: legacy_getActiveMarkets_def then_do_legacy_clientSocket await_Promise_eq
      sample_defs promise_defs)

section \<open>The HTTP methods of the modern client\<close>

text \<open>A request that the relayer answers is \<open>tryParseResponse\<close> of the answer, which
  is the contract with the whole body as the result.\<close>

lemma modern_request_answered:
  assumes "w_fetch W (trace s) (m_relayerUrl (self s) @ RELAYER_HTTP_ENDPOINTS K endpoint)
             verb body = Resolved r"
  shows "modern_request K W endpoint verb body errorMessage s =
           (http_contract K errorMessage whole_body r,
            s\<lparr>trace := trace s @
               [Fetch (m_relayerUrl (self s) @ RELAYER_HTTP_ENDPOINTS K endpoint) verb body]\<rparr>)"
  using assms
  by (simp add: modern_request_def fetch_def then_do_await tryParseResponse_def
      http_contract_def whole_body_def throw_def resolve_def Let_def)

lemma then_do_contract:
  assumes "m s = (http_contract K msg whole_body r, s')"
  shows "fst (then_do m (\<lambda>result. attempt (extract result)) s) = http_contract K msg extract r"
  using assms
  by (auto simp: then_do_def http_contract_def whole_body_def attempt_def throw_def resolve_def
      split: sum.splits)

lemma then_do_contract2:
  assumes "m s = (http_contract K msg whole_body r, s')"
  shows "fst (then_do m (\<lambda>result. then_do (attempt (get_prop result ''data''))
            (\<lambda>data. attempt (get_prop data k))) s)
         = http_contract K msg (data_subfield k) r"
  using assms
  by (auto simp: then_do_def http_contract_def whole_body_def data_subfield_def attempt_def
      throw_def resolve_def split: sum.splits)

lemma modern_getMetadata_contract:
  "w_fetch W (trace s) (m_relayerUrl (self s) @ RELAYER_HTTP_ENDPOINTS K ''METADATA'')
      None None = Resolved r
   \<Longrightarrow> fst (modern_getMetadata K W s) = http_contract K ''Can't fetch metadata'' data_field r"
  unfolding modern_getMetadata_def data_field_def
  by (rule then_do_contract [OF modern_request_answered])

lemma modern_getLeagues_contract:
  "w_fetch W (trace s) (m_relayerUrl (self s) @ RELAYER_HTTP_ENDPOINTS K ''LEAGUES'')
      None None = Resolved r
   \<Longrightarrow> fst (modern_getLeagues K W s) = http_contract K ''Can't fetch leagues'' data_field r"
  unfolding modern_getLeagues_def data_field_def
  by (rule then_do_contract [OF modern_request_answered])

lemma modern_getSports_contract:
  "w_fetch W (trace s) (m_relayerUrl (self s) @ RELAYER_HTTP_ENDPOINTS K ''SPORTS'')
      None None = Resolved r
   \<Longrightarrow> fst (modern_getSports K W s) = http_contract K ''Can't fetch sports'' data_field r"
  unfolding modern_getSports_def data_field_def
  by (rule then_do_contract [OF modern_request_answered])

lemma modern_getActiveMarkets_contract:
  "w_fetch W (trace s) (m_relayerUrl (self s) @ RELAYER_HTTP_ENDPOINTS K ''ACTIVE_MARKETS'')
      None None = Resolved r
   \<Longrightarrow> fst (modern_getActiveMarkets K W s)
       = http_contract K ''Can't fetch active markets'' (data_subfield ''markets'') r"
  unfolding modern_getActiveMarkets_def
  by (rule then_do_contract2 [OF modern_request_answered])

lemma modern_marketLookup_contract:
  "isArray marketHashes \<Longrightarrow> list_all (isHexString K) (elements marketHashes) \<Longrightarrow>
   w_fetch W (trace s) (m_relayerUrl (self s) @ RELAYER_HTTP_ENDPOINTS K ''HISTORICAL_MARKETS'')
      (Some ''POST'') (Some (JObj [(''marketHashes'', marketHashes)])) = Resolved r
   \<Longrightarrow> fst (modern_marketLookup K W marketHashes s)
       = http_contract K ''Can't lookup markets'' data_field r"
  unfolding modern_marketLookup_def data_field_def
  by (simp add: then_do_contract [OF modern_request_answered])

lemma modern_getPendingOrFailedBets_contract:
  "validateIGetPendingBetsRequest K request = ''OK'' \<Longrightarrow>
   w_fetch W (trace s) (m_relayerUrl (self s) @ RELAYER_HTTP_ENDPOINTS K ''PENDING_BETS'')
      (Some ''POST'') (Some request) = Resolved r
   \<Longrightarrow> fst (modern_getPendingOrFailedBets K W request s)
       = http_contract K ''Can't get recent pending bets'' (data_subfield ''bets'') r"
  unfolding modern_getPendingOrFailedBets_def
  by (simp add: then_do_contract2 [OF modern_request_answered])

lemma modern_getTrades_contract:
  "validateIGetTradesRequest K tradeRequest = ''OK'' \<Longrightarrow>
   w_fetch W (trace s) (m_relayerUrl (self s) @ RELAYER_HTTP_ENDPOINTS K ''TRADES'')
      (Some ''POST'') (Some tradeRequest) = Resolved r
   \<Longrightarrow> fst (modern_getTrades K W tradeRequest s)
       = http_contract K ''Can't get trades'' (data_subfield ''trades'') r"
  unfolding modern_getTrades_def
  by (simp add: then_do_contract2 [OF modern_request_answered])

lemma modern_suggestOrders_contract:
  "isHexString K marketHash \<Longrightarrow> isPositiveBigNumber K betSize \<Longrightarrow>
   isBoolean takerDirectionOutcomeOne \<Longrightarrow> isAddress K taker \<Longrightarrow> isAddress K baseToken \<Longrightarrow>
   w_fetch W (trace s) (m_relayerUrl (self s) @ RELAYER_HTTP_ENDPOINTS K ''SUGGEST_ORDERS'')
      (Some ''POST'')
      (Some (JObj
         [(''marketHash'', marketHash),
          (''takerPayAmount'', betSize),
          (''takerDirection'',
             JStr (if truthy takerDirectionOutcomeOne then ''outcomeOne'' else ''outcomeTwo'')),
          (''taker'', taker),
          (''baseToken'', baseToken)])) = Resolved r
   \<Longrightarrow> fst (modern_suggestOrders K W marketHash betSize takerDirectionOutcomeOne taker
            baseToken s)
       = http_contract K ''Can't get suggested orders'' whole_body r"
  unfolding modern_suggestOrders_def
  by (simp add: modern_request_answered)

lemma data_field_eq: "data_field = (\<lambda>result. get_prop result ''data'')"
  by (rule ext) (simp add: data_field_def)

lemma modern_getOrders_contract:
  assumes "truthy marketHashes \<longrightarrow> isArray marketHashes
             \<and> list_all (isHexString K) (elements marketHashes)"
    and "truthy maker \<longrightarrow> isAddress K maker"
    and "truthy baseToken \<longrightarrow> isAddress K baseToken"
    and "w_fetch W (trace s) (m_relayerUrl (self s) @ RELAYER_HTTP_ENDPOINTS K ''ORDERS'')
           (Some ''POST'')
           (Some (JObj
              ((if truthy marketHashes then [(''marketHashes'', marketHashes)] else [])
               @ (if truthy maker then [(''maker'', maker)] else [])
               @ (if truthy baseToken then [(''baseToken'', baseToken)] else []))))
         = Resolved r"
  shows "fst (modern_getOrders K W marketHashes maker baseToken s)
         = http_contract K ''Can't get orders'' data_field r"
proof -
  note req = modern_request_answered [OF assms(4), of "''Can't get orders''"]
  have c: "fst (then_do
      (modern_request K W ''ORDERS'' (Some ''POST'')
         (Some (JObj
            ((if truthy marketHashes then [(''marketHashes'', marketHashes)] else [])
             @ (if truthy maker then [(''maker'', maker)] else [])
             @ (if truthy baseToken then [(''baseToken'', baseToken)] else []))))
         ''Can't get orders'')
      (\<lambda>result. attempt (get_prop result ''data'')) s)
    = http_contract K ''Can't get orders'' (\<lambda>result. get_prop result ''data'') r"
    by (rule then_do_contract) (rule req)
  show ?thesis
  proof (cases "truthy marketHashes")
    case True
    with assms(1) obtain hs where hs: "marketHashes = JArr hs" "list_all (isHexString K) hs"
      by (cases marketHashes) auto
    show ?thesis
      using True hs assms(2,3) c by (auto simp: modern_getOrders_def data_field_eq)
  next
    case False
    show ?thesis
      using False assms(2,3) c by (auto simp: modern_getOrders_def data_field_eq)
  qed
qed

lemma modern_newOrder_contract:
  assumes "modern_apiMakerOrder K W order s = (Resolved apiMakerOrder, s1)"
    and "w_getOrderSignature W (trace s1) apiMakerOrder = Resolved signature"
    and "w_fetch W (trace s1 @ [OrderSignature apiMakerOrder])
           (m_relayerUrl (self s1) @ RELAYER_HTTP_ENDPOINTS K ''NEW_ORDER'') (Some ''POST'')
           (Some (JObj [(''orders'',
              JArr [JObj (spread (own_props apiMakerOrder) [(''signature'', signature)])])]))
         = Resolved r"
  shows "fst (modern_newOrder K W order s)
         = http_contract K ''Can't submit new order'' whole_body r"
  using assms
  by (simp add: modern_newOrder_def getOrderSignature_def
      then_do_def [of "modern_apiMakerOrder K W order"] then_do_await
      modern_request_answered)

lemma modern_cancelOrder_contract:
  assumes "modern_cancelDetails K orderHashes message = Inr cancelDetails"
    and "getEip712Signature K W
           (getCancelOrderEIP712Payload K cancelDetails (m_mainchainChainId (self s))) s
         = (Resolved cancelSignature, s1)"
    and "w_fetch W (trace s1)
           (m_relayerUrl (self s1) @ RELAYER_HTTP_ENDPOINTS K ''CANCEL_ORDERS'') (Some ''POST'')
           (Some (JObj (spread (own_props cancelDetails)
                    [(''cancelSignature'', cancelSignature)])))
         = Resolved r"
  shows "fst (modern_cancelOrder K W orderHashes message s)
         = http_contract K ''Can't cancel orders.'' whole_body r"
  using assms
  by (simp add: modern_cancelOrder_def then_do_def [of "getEip712Signature K W _"]
      modern_request_answered)

lemma modern_fillOrders_contract:
  assumes "modern_fillOrders_validate K orders takerAmounts fillDetailsMetadata
             affiliateAddress = Inr os"
    and "modern_fillDetails K (int (be_nat (w_randomBytes W (trace s) 32))) os takerAmounts
           (finalFillDetailsMetadata fillDetailsMetadata) = Inr fillDetails"
    and "getEip712Signature K W
           (getFillOrderEIP712Payload K fillDetails (m_mainchainChainId (self s))
              (EIP712_FILL_HASHER_ADDRESSES K (m_environment (self s))))
           (s\<lparr>trace := trace s @ [RandomBytes 32]\<rparr>)
         = (Resolved takerSignature, s1)"
    and "modern_getAddress W s1 = (Resolved taker, s2)"
    and "w_fetch W (trace s2)
           (m_relayerUrl (self s2) @ RELAYER_HTTP_ENDPOINTS K ''FILL_ORDERS'') (Some ''POST'')
           (Some (JObj
             (put ''approveProxyPayload'' approveProxyPayload
             (put ''affiliateAddress'' affiliateAddress
             (spread
                [(''orderHashes'',
                    JArr (map (getOrderHash K) (map (convertToContractOrder K) os))),
                 (''takerAmounts'', takerAmounts),
                 (''taker'', taker),
                 (''takerSig'', takerSignature),
                 (''fillSalt'',
                    JStr (dec_int (int (be_nat (w_randomBytes W (trace s) 32)))))]
                (own_props (finalFillDetailsMetadata fillDetailsMetadata)))))))
         = Resolved r"
  shows "fst (modern_fillOrders K W orders takerAmounts fillDetailsMetadata affiliateAddress
            approveProxyPayload s)
         = http_contract K ''Can't fill orders.'' whole_body r"
  using assms
  by (simp add: modern_fillOrders_def randomBytes_def then_do_await bigNumberify_def
      then_do_def [of "getEip712Signature K W _"] then_do_def [of "modern_getAddress W"]
      modern_request_answered)

lemma modern_approveSportXContractsDai_contract:
  assumes "modern_getAddress W s = (Resolved walletAddress, s1)"
    and "self s1 = self s"
    and "map_of (TOKEN_ADDRESSES K (m_mainchainNetwork (self s))) (Tokens_DAI K) = Some dai"
    and "map_of (m_baseTokenWrappers (self s)) dai = Some abi"
    and "w_nonces W (trace s1) dai walletAddress = Resolved nonce"
    and "toNumber K nonce = Inr nonceNumber"
    and "getEip712Signature K W
           (getDaiPermitEIP712Payload K
              (JObj [(''holder'', walletAddress),
                     (''spender'', TOKEN_TRANSFER_PROXY_ADDRESS K (m_environment (self s))),
                     (''nonce'', nonceNumber),
                     (''expiry'', JNum 0),
                     (''allowed'', JBool True)])
              (m_mainchainChainId (self s)) (JStr dai))
           (s1\<lparr>trace := trace s1 @ [ContractNonces dai walletAddress]\<rparr>)
         = (Resolved signature, s2)"
    and "w_fetch W (trace s2)
           (m_relayerUrl (self s2) @ RELAYER_HTTP_ENDPOINTS K ''DAI_APPROVAL'') (Some ''POST'')
           (Some (JObj
              [(''holder'', walletAddress),
               (''spender'', TOKEN_TRANSFER_PROXY_ADDRESS K (m_environment (self s))),
               (''nonce'', nonceNumber),
               (''expiry'', JNum 0),
               (''allowed'', JBool True),
               (''signature'', signature)]))
         = Resolved r"
  shows "fst (modern_approveSportXContractsDai K W s)
         = http_contract K ''Can't approx SportX contracts'' whole_body r"
  using assms
  by (simp add: modern_approveSportXContractsDai_def then_do_def [of "modern_getAddress W"]
      then_do_await then_do_def [of "getEip712Signature K W _"] spread_def
      modern_request_answered)

text \<open>
  Claim C5, as amended. Every HTTP call of the modern client whose request the
  relayer answers follows the contract: a body that does not parse rejects with an
  \<open>APIError\<close> whose message carries the raw text; a body that parses with a status
  other than 200 rejects with an \<open>APIError\<close> carrying the parsed body and the status
  code. Otherwise \<open>getMetadata\<close>, \<open>getLeagues\<close>, \<open>getSports\<close>, \<open>marketLookup\<close> and
  \<open>getOrders\<close> resolve with the \<open>data\<close> field of the parsed body, \<open>getActiveMarkets\<close>,
  \<open>getPendingOrFailedBets\<close> and \<open>getTrades\<close> with \<open>data.markets\<close>, \<open>data.bets\<close>
  and \<open>data.trades\<close> (reading a field of \<open>null\<close> or \<open>undefined\<close> is a
  \<open>TypeError\<close>), and \<open>suggestOrders\<close>, \<open>newOrder\<close>, \<open>cancelOrder\<close>, \<open>fillOrders\<close>
  and \<open>approveSportXContractsDai\<close> resolve with the whole parsed body.
\<close>

theorem modern_http_contract:
  "(w_fetch W (trace s) (m_relayerUrl (self s) @ RELAYER_HTTP_ENDPOINTS K ''METADATA'')
      None None = Resolved r
    \<longrightarrow> fst (modern_getMetadata K W s) = http_contract K ''Can't fetch metadata'' data_field r)
   \<and> (w_fetch W (trace s) (m_relayerUrl (self s) @ RELAYER_HTTP_ENDPOINTS K ''LEAGUES'')
      None None = Resolved r
    \<longrightarrow> fst (modern_getLeagues K W s) = http_contract K ''Can't fetch leagues'' data_field r)
   \<and> (w_fetch W (trace s) (m_relayerUrl (self s) @ RELAYER_HTTP_ENDPOINTS K ''SPORTS'')
      None None = Resolved r
    \<longrightarrow> fst (modern_getSports K W s) = http_contract K ''Can't fetch sports'' data_field r)
   \<and> (w_fetch W (trace s) (m_relayerUrl (self s) @ RELAYER_HTTP_ENDPOINTS K ''ACTIVE_MARKETS'')
      None None = Resolved r
    \<longrightarrow> fst (modern_getActiveMarkets K W s)
        = http_contract K ''Can't fetch active markets'' (data_subfield ''markets'') r)
   \<and> (isArray marketHashes \<and> list_all (isHexString K) (elements marketHashes)
      \<and> w_fetch W (trace s)
          (m_relayerUrl (self s) @ RELAYER_HTTP_ENDPOINTS K ''HISTORICAL_MARKETS'')
          (Some ''POST'') (Some (JObj [(''marketHashes'', marketHashes)])) = Resolved r
    \<longrightarrow> fst (modern_marketLookup K W marketHashes s)
        = http_contract K ''Can't lookup markets'' data_field r)
   \<and> (validateIGetPendingBetsRequest K request = ''OK''
      \<and> w_fetch W (trace s) (m_relayerUrl (self s) @ RELAYER_HTTP_ENDPOINTS K ''PENDING_BETS'')
          (Some ''POST'') (Some request) = Resolved r
    \<longrightarrow> fst (modern_getPendingOrFailedBets K W request s)
        = http_contract K ''Can't get recent pending bets'' (data_subfield ''bets'') r)
   \<and> (validateIGetTradesRequest K tradeRequest = ''OK''
      \<and> w_fetch W (trace s) (m_relayerUrl (self s) @ RELAYER_HTTP_ENDPOINTS K ''TRADES'')
          (Some ''POST'') (Some tradeRequest) = Resolved r
    \<longrightarrow> fst (modern_getTrades K W tradeRequest s)
        = http_contract K ''Can't get trades'' (data_subfield ''trades'') r)
   \<and> ((truthy hashes \<longrightarrow> isArray hashes \<and> list_all (isHexString K) (elements hashes))
      \<and> (truthy maker \<longrightarrow> isAddress K maker)
      \<and> (truthy token \<longrightarrow> isAddress K token)
      \<and> w_fetch W (trace s) (m_relayerUrl (self s) @ RELAYER_HTTP_ENDPOINTS K ''ORDERS'')
           (Some ''POST'')
           (Some (JObj
              ((if truthy hashes then [(''marketHashes'', hashes)] else [])
               @ (if truthy maker then [(''maker'', maker)] else [])
               @ (if truthy token then [(''baseToken'', token)] else []))))
         = Resolved r
    \<longrightarrow> fst (modern_getOrders K W hashes maker token s)
        = http_contract K ''Can't get orders'' data_field r)
   \<and> (isHexString K marketHash \<and> isPositiveBigNumber K betSize
      \<and> isBoolean takerDirectionOutcomeOne \<and> isAddress K taker \<and> isAddress K baseToken
      \<and> w_fetch W (trace s) (m_relayerUrl (self s) @ RELAYER_HTTP_ENDPOINTS K ''SUGGEST_ORDERS'')
          (Some ''POST'')
          (Some (JObj
             [(''marketHash'', marketHash),
              (''takerPayAmount'', betSize),
              (''takerDirection'',
                 JStr (if truthy takerDirectionOutcomeOne then ''outcomeOne''
                       else ''outcomeTwo'')),
              (''taker'', taker),
              (''baseToken'', baseToken)])) = Resolved r
    \<longrightarrow> fst (modern_suggestOrders K W marketHash betSize takerDirectionOutcomeOne taker
             baseToken s)
        = http_contract K ''Can't get suggested orders'' whole_body r)
   \<and> (modern_apiMakerOrder K W order s = (Resolved apiMakerOrder, sn)
      \<and> w_getOrderSignature W (trace sn) apiMakerOrder = Resolved orderSignature
      \<and> w_fetch W (trace sn @ [OrderSignature apiMakerOrder])
           (m_relayerUrl (self sn) @ RELAYER_HTTP_ENDPOINTS K ''NEW_ORDER'') (Some ''POST'')
           (Some (JObj [(''orders'',
              JArr [JObj (spread (own_props apiMakerOrder)
                       [(''signature'', orderSignature)])])]))
         = Resolved r
    \<longrightarrow> fst (modern_newOrder K W order s)
        = http_contract K ''Can't submit new order'' whole_body r)
   \<and> (modern_cancelDetails K orderHashes message = Inr cancelDetails
      \<and> getEip712Signature K W
           (getCancelOrderEIP712Payload K cancelDetails (m_mainchainChainId (self s))) s
         = (Resolved cancelSignature, sc)
      \<and> w_fetch W (trace sc)
           (m_relayerUrl (self sc) @ RELAYER_HTTP_ENDPOINTS K ''CANCEL_ORDERS'') (Some ''POST'')
           (Some (JObj (spread (own_props cancelDetails)
                    [(''cancelSignature'', cancelSignature)])))
         = Resolved r
    \<longrightarrow> fst (modern_cancelOrder K W orderHashes message s)
        = http_contract K ''Can't cancel orders.'' whole_body r)
   \<and> (modern_fillOrders_validate K orders takerAmounts fillDetailsMetadata
             affiliateAddress = Inr os
      \<and> modern_fillDetails K (int (be_nat (w_randomBytes W (trace s) 32))) os takerAmounts
           (finalFillDetailsMetadata fillDetailsMetadata) = Inr fillDetails
      \<and> getEip712Signature K W
           (getFillOrderEIP712Payload K fillDetails (m_mainchainChainId (self s))
              (EIP712_FILL_HASHER_ADDRESSES K (m_environment (self s))))
           (s\<lparr>trace := trace s @ [RandomBytes 32]\<rparr>)
         = (Resolved takerSignature, sf)
      \<and> modern_getAddress W sf = (Resolved takerAddress, sg)
      \<and> w_fetch W (trace sg)
           (m_relayerUrl (self sg) @ RELAYER_HTTP_ENDPOINTS K ''FILL_ORDERS'') (Some ''POST'')
           (Some (JObj
             (put ''approveProxyPayload'' approveProxyPayload
             (put ''affiliateAddress'' affiliateAddress
             (spread
                [(''orderHashes'',
                    JArr (map (getOrderHash K) (map (convertToContractOrder K) os))),
                 (''takerAmounts'', takerAmounts),
                 (''taker'', takerAddress),
                 (''takerSig'', takerSignature),
                 (''fillSalt'',
                    JStr (dec_int (int (be_nat (w_randomBytes W (trace s) 32)))))]
                (own_props (finalFillDetailsMetadata fillDetailsMetadata)))))))
         = Resolved r
    \<longrightarrow> fst (modern_fillOrders K W orders takerAmounts fillDetailsMetadata affiliateAddress
            approveProxyPayload s)
        = http_contract K ''Can't fill orders.'' whole_body r)
   \<and> (modern_getAddress W s = (Resolved walletAddress, sd)
      \<and> self sd = self s
      \<and> map_of (TOKEN_ADDRESSES K (m_mainchainNetwork (self s))) (Tokens_DAI K) = Some dai
      \<and> map_of (m_baseTokenWrappers (self s)) dai = Some abi
      \<and> w_nonces W (trace sd) dai walletAddress = Resolved nonce
      \<and> toNumber K nonce = Inr nonceNumber
      \<and> getEip712Signature K W
           (getDaiPermitEIP712Payload K
              (JObj [(''holder'', walletAddress),
                     (''spender'', TOKEN_TRANSFER_PROXY_ADDRESS K (m_environment (self s))),
                     (''nonce'', nonceNumber),
                     (''expiry'', JNum 0),
                     (''allowed'', JBool True)])
              (m_mainchainChainId (self s)) (JStr dai))
           (sd\<lparr>trace := trace sd @ [ContractNonces dai walletAddress]\<rparr>)
         = (Resolved permitSignature, se)
      \<and> w_fetch W (trace se)
           (m_relayerUrl (self se) @ RELAYER_HTTP_ENDPOINTS K ''DAI_APPROVAL'') (Some ''POST'')
           (Some (JObj
              [(''holder'', walletAddress),
               (''spender'', TOKEN_TRANSFER_PROXY_ADDRESS K (m_environment (self s))),
               (''nonce'', nonceNumber),
               (''expiry'', JNum 0),
               (''allowed'', JBool True),
               (''signature'', permitSignature)]))
         = Resolved r
    \<longrightarrow> fst (modern_approveSportXContractsDai K W s)
        = http_contract K ''Can't approx SportX contracts'' whole_body r)"
  apply (intro conjI impI)
  apply (elim conjE)?
  subgoal by (rule modern_getMetadata_contract)
  subgoal by (rule modern_getLeagues_contract)
  subgoal by (rule modern_getSports_contract)
  subgoal by (rule modern_getActiveMarkets_contract)
  subgoal by (elim conjE) (rule modern_marketLookup_contract)
  subgoal by (elim conjE) (rule modern_getPendingOrFailedBets_contract)
  subgoal by (elim conjE) (rule modern_getTrades_contract)
  subgoal by (elim conjE) (rule modern_getOrders_contract)
  subgoal by (elim conjE) (rule modern_suggestOrders_contract)
  subgoal by (elim conjE) (rule modern_newOrder_contract)
  subgoal by (elim conjE) (rule modern_cancelOrder_contract)
  subgoal by (elim conjE) (rule modern_fillOrders_contract)
  subgoal by (elim conjE) (rule modern_approveSportXContractsDai_contract)
  done

lemma pair_snd_eq: "(x = (a, snd x)) = (fst x = a)"
  by (cases x) auto

lemma getEip712Signature_direct:
  "truthy (m_privateKey (self s)) \<Longrightarrow>
   getEip712Signature K W payload s =
     (case signTypedData_v4 K (m_privateKey (self s)) payload of
        Inl e \<Rightarrow> Rejected e
      | Inr sig \<Rightarrow> Resolved sig,
      s\<lparr>trace := trace s @ [SignTypedDataLocal (m_privateKey (self s)) payload]\<rparr>)"
  by (simp add: getEip712Signature_def throw_def resolve_def split: sum.splits)

lemma modern_getAddress_wallet:
  "m_mainchainSigningWallet (self s) = WalletSigner w \<Longrightarrow>
   modern_getAddress W s = (Resolved (JStr (wallet_address w)), s)"
  by (simp add: modern_getAddress_def resolve_def)

lemma sample_modern_apiMakerOrder_run:
  "modern_apiMakerOrder sample_collab sample_world sample_order (fresh ready_modern)
   = (Resolved sample_modern_apiMakerOrder, (fresh ready_modern)\<lparr>trace := [RandomBytes 32]\<rparr>)"
  by (simp add: modern_apiMakerOrder_def modern_getAddress_def sample_defs run_simps
      then_do_await sample_modern_apiMakerOrder_def)

lemma sample_fillOrders_validate:
  "modern_fillOrders_validate sample_collab (JArr [sample_signed_order])
     (JArr [JStr ''1'', JStr ''2'']) JUndefined JUndefined = Inr [sample_signed_order]"
  by (simp add: modern_fillOrders_validate_def sample_defs field_def)

lemma sample_fillDetails_run:
  "modern_fillDetails sample_collab 0 [sample_signed_order] (JArr [JStr ''1'', JStr ''2''])
     (finalFillDetailsMetadata JUndefined) = Inr sample_fillDetails"
  by (simp add: modern_fillDetails_def finalFillDetailsMetadata_def or_else_def
      sample_fillDetails_def bigNumberify_def sample_defs)

theorem modern_http_contract_witness:
  "fst (modern_getMetadata sample_collab sample_world (fresh ready_modern))
     = Resolved (field sample_body ''data'')
   \<and> fst (modern_getLeagues sample_collab sample_world (fresh ready_modern))
     = Resolved (field sample_body ''data'')
   \<and> fst (modern_getSports sample_collab sample_world (fresh ready_modern))
     = Resolved (field sample_body ''data'')
   \<and> fst (modern_getActiveMarkets sample_collab sample_world (fresh ready_modern))
     = Resolved (JArr [])
   \<and> fst (modern_marketLookup sample_collab sample_world (JArr [JStr ''0xab''])
          (fresh ready_modern))
     = Resolved (field sample_body ''data'')
   \<and> fst (modern_getPendingOrFailedBets sample_collab sample_world (JObj [])
          (fresh ready_modern))
     = Resolved (JArr [])
   \<and> fst (modern_getTrades sample_collab sample_world (JObj []) (fresh ready_modern))
     = Resolved (JArr [])
   \<and> fst (modern_getOrders sample_collab sample_world JUndefined JUndefined JUndefined
          (fresh ready_modern))
     = Resolved (field sample_body ''data'')
   \<and> fst (modern_suggestOrders sample_collab sample_world (JStr ''0xab'') (JStr ''5'')
          (JBool True) (JStr ''0x1111111111111111111111111111111111111111'')
          (JStr ''0x4444444444444444444444444444444444444444'') (fresh ready_modern))
     = Resolved sample_body
   \<and> fst (modern_newOrder sample_collab sample_world sample_order (fresh ready_modern))
     = Resolved sample_body
   \<and> fst (modern_cancelOrder sample_collab sample_world (JArr [JStr ''0xaa''])
          (JStr ''test'') (fresh ready_modern))
     = Resolved sample_body
   \<and> fst (modern_fillOrders sample_collab sample_world (JArr [sample_signed_order])
          (JArr [JStr ''1'', JStr ''2'']) JUndefined JUndefined JUndefined
          (fresh ready_modern))
     = Resolved sample_body
   \<and> fst (modern_approveSportXContractsDai sample_collab sample_world (fresh ready_modern))
     = Resolved sample_body"
proof -
  let ?s = "fresh ready_modern"
  let ?D = "JObj [(''orders'', JArr [JStr ''0xaa'']), (''message'', JStr ''test'')]"
  let ?sc = "snd (getEip712Signature sample_collab sample_world
                (getCancelOrderEIP712Payload sample_collab ?D (m_mainchainChainId (self ?s))) ?s)"
  let ?sf = "snd (getEip712Signature sample_collab sample_world
                (getFillOrderEIP712Payload sample_collab sample_fillDetails
                   (m_mainchainChainId (self ?s))
                   (EIP712_FILL_HASHER_ADDRESSES sample_collab (m_environment (self ?s))))
                (?s\<lparr>trace := trace ?s @ [RandomBytes 32]\<rparr>))"
  let ?a = "JStr ''0x1111111111111111111111111111111111111111''"
  let ?dai = "''0x4444444444444444444444444444444444444444''"
  let ?se = "snd (getEip712Signature sample_collab sample_world
           (getDaiPermitEIP712Payload sample_collab
              (JObj [(''holder'', ?a),
                     (''spender'', TOKEN_TRANSFER_PROXY_ADDRESS sample_collab
                                     (m_environment (self ?s))),
                     (''nonce'', JNum 0),
                     (''expiry'', JNum 0),
                     (''allowed'', JBool True)])
              (m_mainchainChainId (self ?s)) (JStr ?dai))
           (?s\<lparr>trace := trace ?s @ [ContractNonces ?dai ?a]\<rparr>))"
  have F: "(w_fetch sample_world t url verb body = Resolved sample_response) = True"
    for t url verb body
    by (simp add: sample_defs)
  have hd: "http_contract sample_collab msg data_field sample_response
            = Resolved (field sample_body ''data'')" for msg
    by (simp add: http_contract_def data_field_def sample_defs sample_body_def field_def)
  have hs: "http_contract sample_collab msg (data_subfield ''markets'') sample_response
            = Resolved (JArr [])"
    "http_contract sample_collab msg (data_subfield ''bets'') sample_response
            = Resolved (JArr [])"
    "http_contract sample_collab msg (data_subfield ''trades'') sample_response
            = Resolved (JArr [])" for msg
    by (simp_all add: http_contract_def data_subfield_def sample_defs)
  have hw: "http_contract sample_collab msg whole_body sample_response = Resolved sample_body"
    for msg
    by (simp add: http_contract_def whole_body_def sample_defs sample_body_def)
  have v1: "isArray (JArr [JStr ''0xab''])
            \<and> list_all (isHexString sample_collab) (elements (JArr [JStr ''0xab'']))"
    by (simp add: sample_defs)
  have v2: "validateIGetPendingBetsRequest sample_collab (JObj []) = ''OK''"
    "validateIGetTradesRequest sample_collab (JObj []) = ''OK''"
    by (simp_all add: sample_defs)
  have v3: "(truthy JUndefined \<longrightarrow> P) = True" for P
    by simp
  have v4: "isHexString sample_collab (JStr ''0xab'')"
    "isPositiveBigNumber sample_collab (JStr ''5'')" "isBoolean (JBool True)"
    "isAddress sample_collab (JStr ''0x1111111111111111111111111111111111111111'')"
    "isAddress sample_collab (JStr ''0x4444444444444444444444444444444444444444'')"
    by (simp_all add: sample_defs)
  have n1: "modern_apiMakerOrder sample_collab sample_world sample_order ?s
            = (Resolved sample_modern_apiMakerOrder, ?s\<lparr>trace := [RandomBytes 32]\<rparr>)"
    by (rule sample_modern_apiMakerOrder_run)
  have n2: "w_getOrderSignature sample_world t sample_modern_apiMakerOrder
            = Resolved (JStr ''0x9999'')" for t
    by (simp add: sample_defs)
  have c1: "modern_cancelDetails sample_collab (JArr [JStr ''0xaa'']) (JStr ''test'') = Inr ?D"
    by (simp add: modern_cancelDetails_def or_else_def sample_defs)
  have key: "truthy (m_privateKey (self (?s\<lparr>trace := t\<rparr>)))" "truthy (m_privateKey (self ?s))"
    for t
    by (simp_all add: sample_defs)
  have sg: "fst (getEip712Signature sample_collab sample_world payload (?s\<lparr>trace := t\<rparr>))
            = Resolved (JStr ''0x6666'')"
    "fst (getEip712Signature sample_collab sample_world payload ?s) = Resolved (JStr ''0x6666'')"
    for payload t
    by (simp_all add: getEip712Signature_direct key) (simp_all add: sample_defs)
  have f1: "modern_fillOrders_validate sample_collab (JArr [sample_signed_order])
              (JArr [JStr ''1'', JStr ''2'']) JUndefined JUndefined = Inr [sample_signed_order]"
    by (rule sample_fillOrders_validate)
  have f2: "modern_fillDetails sample_collab
              (int (be_nat (w_randomBytes sample_world (trace ?s) 32)))
              [sample_signed_order] (JArr [JStr ''1'', JStr ''2''])
              (finalFillDetailsMetadata JUndefined) = Inr sample_fillDetails"
    using sample_fillDetails_run by (simp add: sample_defs be_nat_zeros)
  have f3: "modern_getAddress sample_world ?sf = (Resolved ?a, ?sf)"
    by (subst modern_getAddress_wallet [of _ sample_wallet])
       (simp_all add: getEip712Signature_direct key, simp_all add: sample_defs)
  have d1: "modern_getAddress sample_world ?s = (Resolved ?a, ?s)"
    by (subst modern_getAddress_wallet [of _ sample_wallet]) (simp_all add: sample_defs)
  have d2: "map_of (TOKEN_ADDRESSES sample_collab (m_mainchainNetwork (self ?s)))
              (Tokens_DAI sample_collab) = Some ?dai"
    "map_of (m_baseTokenWrappers (self ?s)) ?dai = Some ''ChildERC20''"
    "w_nonces sample_world t ?dai ?a = Resolved (JNum 0)"
    "toNumber sample_collab (JNum 0) = Inr (JNum 0)" for t
    by (simp_all add: sample_defs)
  note th = modern_http_contract [where K = sample_collab and W = sample_world and s = ?s
      and r = sample_response and marketHashes = "JArr [JStr ''0xab'']"
      and request = "JObj []" and tradeRequest = "JObj []"
      and hashes = JUndefined and maker = JUndefined and token = JUndefined
      and marketHash = "JStr ''0xab''" and betSize = "JStr ''5''"
      and takerDirectionOutcomeOne = "JBool True" and taker = ?a
      and baseToken = "JStr ''0x4444444444444444444444444444444444444444''"
      and order = sample_order and apiMakerOrder = sample_modern_apiMakerOrder
      and sn = "?s\<lparr>trace := [RandomBytes 32]\<rparr>" and orderSignature = "JStr ''0x9999''"
      and orderHashes = "JArr [JStr ''0xaa'']" and message = "JStr ''test''"
      and cancelDetails = ?D and cancelSignature = "JStr ''0x6666''" and sc = ?sc
      and orders = "JArr [sample_signed_order]" and takerAmounts = "JArr [JStr ''1'', JStr ''2'']"
      and fillDetailsMetadata = JUndefined and affiliateAddress = JUndefined
      and approveProxyPayload = JUndefined and os = "[sample_signed_order]"
      and fillDetails = sample_fillDetails and takerSignature = "JStr ''0x6666''"
      and sf = ?sf and takerAddress = ?a and sg = ?sf
      and walletAddress = ?a and sd = ?s and dai = ?dai and abi = "''ChildERC20''"
      and nonce = "JNum 0" and nonceNumber = "JNum 0"
      and permitSignature = "JStr ''0x6666''" and se = ?se]
  show ?thesis
    using th
    by (simp only: F hd hs hw v1 v2 v3 v4 n1 n2 c1 sg f1 f2 f3 d1 d2 pair_snd_eq simp_thms)
qed

text \<open>As first stated, C5 promised the \<open>data\<close> field (or a field of it) for every HTTP
  call. \<open>cancelOrder\<close> resolves with the whole body, which is not its \<open>data\<close>; and
  \<open>getMetadata\<close> on the body \<open>null\<close> with status 200 rejects with a \<open>TypeError\<close>.\<close>

theorem modern_http_whole_body_counterexample:
  "fst (modern_cancelOrder sample_collab sample_world (JArr [JStr ''0xaa'']) (JStr ''test'')
          (fresh ready_modern)) = Resolved sample_body
   \<and> sample_body \<noteq> field sample_body ''data''
   \<and> fst (modern_getMetadata sample_collab null_world (fresh ready_modern))
       = Rejected (TypeError ''Cannot read property data of null'')"
  by (simp add: modern_cancelOrder_def modern_cancelDetails_def getEip712Signature_def
      modern_getMetadata_def modern_request_def tryParseResponse_def then_do_await
      or_else_def spread_def sample_body_def sample_defs run_simps)

end
